theory Spec2Isabelle
  imports Complex_Main "HOL-Library.Word"
begin

unbundle bit_operations_syntax

section \<open>Machine types and status codes\<close>

text \<open>
  The driver is compiled for Windows: \<open>BYTE\<close> is 8 bits, \<open>UINT\<close> is an unsigned and
  \<open>LONG\<close> a signed 32-bit integer, \<open>UINT64\<close> is 64 bits, \<open>NTSTATUS\<close> is a \<open>LONG\<close>.
  All arithmetic on them wraps around, which is what word arithmetic does; \<open>unat\<close> reads
  a word as unsigned, \<open>sint\<close> as two's complement.
\<close>

type_synonym BYTE = "8 word"
type_synonym UINT = "32 word"
type_synonym LONG = "32 word"
type_synonym UINT64 = "64 word"
type_synonym NTSTATUS = "32 word"

text \<open>
  The status codes and \<open>NT_SUCCESS\<close> come from the Windows headers (ntdef.h, ntstatus.h):
  \<open>#define NT_SUCCESS(Status) (((NTSTATUS)(Status)) >= 0)\<close>.
\<close>

definition NT_SUCCESS :: "NTSTATUS \<Rightarrow> bool" where
  "NT_SUCCESS Status = (0 \<le> sint Status)"

definition STATUS_SUCCESS :: NTSTATUS where
  "STATUS_SUCCESS = 0x00000000"

definition STATUS_PENDING :: NTSTATUS where
  "STATUS_PENDING = 0x00000103"

definition STATUS_NOT_IMPLEMENTED :: NTSTATUS where
  "STATUS_NOT_IMPLEMENTED = 0xC0000002"

definition STATUS_INVALID_PARAMETER :: NTSTATUS where
  "STATUS_INVALID_PARAMETER = 0xC000000D"

definition STATUS_INVALID_DEVICE_REQUEST :: NTSTATUS where
  "STATUS_INVALID_DEVICE_REQUEST = 0xC0000010"

text \<open>
  \<open>InterlockedIncrement\<close> adds one to a \<open>LONG\<close> variable and returns the new value; the
  addition wraps. The model is sequential, so the result is the pair of the returned value
  and the new content of the variable.
\<close>

definition InterlockedIncrement :: "LONG \<Rightarrow> LONG \<times> LONG" where
  "InterlockedIncrement v = (v + 1, v + 1)"

section \<open>Edid.cpp: the descriptor encoder\<close>

text \<open>
  A \<open>BYTE*\<close> points to memory that is read and written by offset: a store from offsets to
  bytes. A null pointer is \<open>None\<close>.
\<close>

type_synonym buffer = "nat \<Rightarrow> BYTE"

text \<open>Driver.h: \<open>#define EDID_SIZE 256\<close>.\<close>

definition EDID_SIZE :: nat where
  "EDID_SIZE = 256"

text \<open>\<open>RtlZeroMemory(&buf[off], len)\<close> zeroes \<open>len\<close> bytes from offset \<open>off\<close>.\<close>

definition RtlZeroMemory :: "buffer \<Rightarrow> nat \<Rightarrow> nat \<Rightarrow> buffer" where
  "RtlZeroMemory buf off len = (\<lambda>i. if off \<le> i \<and> i < off + len then 0 else buf i)"

text \<open>Bytes 0 to 7: the header.\<close>

definition edid_header :: "buffer \<Rightarrow> buffer" where
  "edid_header buf = buf
     (0 := 0x00, 1 := 0xFF, 2 := 0xFF, 3 := 0xFF, 4 := 0xFF, 5 := 0xFF, 6 := 0xFF, 7 := 0x00)"

text \<open>Bytes 8 to 19: manufacturer, product code, serial number, week, year, version.\<close>

definition edid_vendor :: "buffer \<Rightarrow> buffer" where
  "edid_vendor buf = buf
     (8 := 0x15, 9 := 0x30,
      10 := 0x01, 11 := 0x00,
      12 := 0x01, 13 := 0x00, 14 := 0x00, 15 := 0x00,
      16 := 0x01,
      17 := 0x24,
      18 := 0x01, 19 := 0x04)"

text \<open>
  Bytes 20 to 24: input definition, image size, gamma, features. The two sizes are
  \<open>(BYTE)(Width * 254 / 960 / 10)\<close> and the same for the height, in \<open>UINT\<close> arithmetic:
  the product wraps at 32 bits, both divisions truncate, the cast keeps the low byte.
\<close>

definition edid_basic_display :: "UINT \<Rightarrow> UINT \<Rightarrow> buffer \<Rightarrow> buffer" where
  "edid_basic_display Width Height buf = buf
     (20 := 0x95,
      21 := ucast (Width * 254 div 960 div 10),
      22 := ucast (Height * 254 div 960 div 10),
      23 := 0x78,
      24 := 0x2A)"

text \<open>Bytes 25 to 53: colour characteristics, established and standard timings.\<close>

definition edid_color_timings :: "buffer \<Rightarrow> buffer" where
  "edid_color_timings buf = RtlZeroMemory (buf
     (25 := 0x0D, 26 := 0xC9, 27 := 0xA0, 28 := 0x57, 29 := 0x47,
      30 := 0x98, 31 := 0x27, 32 := 0x12, 33 := 0x48, 34 := 0x4C,
      35 := 0x00, 36 := 0x00, 37 := 0x00)) 38 16"

text \<open>
  Bytes 54 to 71: the preferred timing.
  \<open>UINT pixelClock = Width * Height * 60 / 10000\<close> is again 32-bit arithmetic.
\<close>

definition edid_preferred_timing :: "UINT \<Rightarrow> UINT \<Rightarrow> buffer \<Rightarrow> buffer" where
  "edid_preferred_timing Width Height buf =
     (let pixelClock = Width * Height * 60 div 10000 in
      RtlZeroMemory (buf
        (54 := ucast (pixelClock AND 0xFF),
         55 := ucast (drop_bit 8 pixelClock AND 0xFF),
         56 := ucast (Width AND 0xFF),
         57 := 0x30,
         58 := ucast (push_bit 4 (drop_bit 8 Width AND 0x0F)),
         59 := ucast (Height AND 0xFF),
         60 := 0x1E,
         61 := ucast (push_bit 4 (drop_bit 8 Height AND 0x0F)))) 62 10)"

text \<open>
  Bytes 72 to 89: the display name descriptor. The loop
  \<open>for (size_t i = 0; i < 13 && i < nameLen; i++) EdidBuffer[77 + i] = (BYTE)displayName[i]\<close>
  copies the name, and the line feed goes to offset \<open>77 + nameLen\<close>.
\<close>

definition displayName :: string where
  "displayName = ''ExpandScreen''"

function name_loop :: "nat \<Rightarrow> nat \<Rightarrow> buffer \<Rightarrow> buffer" where
  "name_loop i nameLen buf =
     (if i < 13 \<and> i < nameLen
      then name_loop (i + 1) nameLen (buf(77 + i := of_char (displayName ! i)))
      else buf)"
  by pat_completeness auto
termination
  by (relation "measure (\<lambda>(i, nameLen, buf). 13 - i)") auto

definition edid_display_name :: "buffer \<Rightarrow> buffer" where
  "edid_display_name buf =
     (let buf1 = buf(72 := 0x00, 73 := 0x00, 74 := 0x00, 75 := 0xFC, 76 := 0x00);
          nameLen = length displayName;
          buf2 = name_loop 0 nameLen buf1
      in buf2(77 + nameLen := 0x0A))"

text \<open>Bytes 90 to 126: two empty descriptors and the extension flag.\<close>

definition edid_tail :: "buffer \<Rightarrow> buffer" where
  "edid_tail buf = (RtlZeroMemory buf 90 36)(126 := 0x00)"

text \<open>
  The checksum: \<open>BYTE checksum = 0; for (int i = 0; i < 127; i++) checksum += EdidBuffer[i];\<close>
  then \<open>EdidBuffer[127] = (BYTE)(256 - checksum)\<close>. The sum is kept in a byte and wraps;
  the subtraction is done in \<open>int\<close> and cast back.
\<close>

function checksum_loop :: "nat \<Rightarrow> BYTE \<Rightarrow> buffer \<Rightarrow> BYTE" where
  "checksum_loop i checksum buf =
     (if i < 127 then checksum_loop (i + 1) (checksum + buf i) buf else checksum)"
  by pat_completeness auto
termination
  by (relation "measure (\<lambda>(i, checksum, buf). 127 - i)") auto

definition edid_checksum :: "buffer \<Rightarrow> buffer" where
  "edid_checksum buf =
     (let checksum = checksum_loop 0 0 buf
      in buf(127 := ucast ((256 :: 32 word) - ucast checksum)))"

definition GenerateEdid :: "buffer option \<Rightarrow> UINT \<Rightarrow> UINT \<Rightarrow> NTSTATUS \<times> buffer option" where
  "GenerateEdid EdidBuffer Width Height =
     (case EdidBuffer of
        None \<Rightarrow> (STATUS_INVALID_PARAMETER, None)
      | Some buf \<Rightarrow>
          (STATUS_SUCCESS,
           Some (edid_checksum (edid_tail (edid_display_name
                  (edid_preferred_timing Width Height (edid_color_timings
                    (edid_basic_display Width Height (edid_vendor (edid_header
                      (RtlZeroMemory buf 0 EDID_SIZE)))))))))))"

text \<open>The first \<open>n\<close> bytes of a buffer, as a list.\<close>

definition bytes_of :: "buffer \<Rightarrow> nat \<Rightarrow> BYTE list" where
  "bytes_of buf n = map buf [0..<n]"

section \<open>Driver.h: the mode catalogue\<close>

record DISPLAY_MODE =
  Width :: UINT
  Height :: UINT
  RefreshRate :: UINT

definition g_SupportedModes :: "DISPLAY_MODE list" where
  "g_SupportedModes =
     [\<lparr>Width = 1920, Height = 1080, RefreshRate = 60\<rparr>,
      \<lparr>Width = 1920, Height = 1080, RefreshRate = 120\<rparr>,
      \<lparr>Width = 2560, Height = 1600, RefreshRate = 60\<rparr>,
      \<lparr>Width = 1280, Height = 720, RefreshRate = 60\<rparr>,
      \<lparr>Width = 3840, Height = 2160, RefreshRate = 60\<rparr>]"

text \<open>\<open>#define SUPPORTED_MODE_COUNT (sizeof(g_SupportedModes) / sizeof(DISPLAY_MODE))\<close>\<close>

definition SUPPORTED_MODE_COUNT :: nat where
  "SUPPORTED_MODE_COUNT = length g_SupportedModes"

section \<open>Monitor.cpp: the mode callbacks\<close>

text \<open>
  The structures the two callbacks fill in are declared by the host's headers. The model
  keeps the fields the driver assigns; the \<open>Size\<close> fields, which hold a \<open>sizeof\<close>, are
  left out. The enumerations list the members of the host's headers.
\<close>

datatype D3DKMDT_VIDEO_SIGNAL_STANDARD = D3DKMDT_VSS_UNINITIALIZED | D3DKMDT_VMS_OTHER

datatype D3DDDI_VIDEO_SIGNAL_SCANLINE_ORDERING =
    D3DDDI_VSSLO_UNINITIALIZED
  | D3DDDI_VSSLO_PROGRESSIVE
  | D3DDDI_VSSLO_INTERLACED_UPPERFIELDFIRST
  | D3DDDI_VSSLO_INTERLACED_LOWERFIELDFIRST
  | D3DDDI_VSSLO_OTHER

datatype IDDCX_MONITOR_MODE_ORIGIN =
    IDDCX_MONITOR_MODE_ORIGIN_UNINITIALIZED
  | IDDCX_MONITOR_MODE_ORIGIN_MONITORDESCRIPTOR
  | IDDCX_MONITOR_MODE_ORIGIN_DRIVER

record D3DKMDT_2DREGION =
  cx :: UINT
  cy :: UINT

record D3DDDI_RATIONAL =
  Numerator :: UINT
  Denominator :: UINT

record VIDEO_SIGNAL_INFO =
  VideoStandard :: D3DKMDT_VIDEO_SIGNAL_STANDARD
  TotalSize :: D3DKMDT_2DREGION
  ActiveSize :: D3DKMDT_2DREGION
  VSyncFreq :: D3DDDI_RATIONAL
  HSyncFreq :: D3DDDI_RATIONAL
  PixelRate :: UINT64
  ScanLineOrdering :: D3DDDI_VIDEO_SIGNAL_SCANLINE_ORDERING

record IDDCX_MONITOR_MODE =
  Origin :: IDDCX_MONITOR_MODE_ORIGIN
  MonitorVideoSignalInfo :: VIDEO_SIGNAL_INFO

record IDDCX_TARGET_MODE =
  TargetVideoSignalInfo :: VIDEO_SIGNAL_INFO

text \<open>
  The assignments both loop bodies make to the signal information of entry \<open>i\<close>, field by
  field. The horizontal frequency is a \<open>UINT\<close> product; the pixel rate is a product of the
  three values widened to \<open>UINT64\<close> first.
\<close>

definition fill_signal_info :: "DISPLAY_MODE \<Rightarrow> VIDEO_SIGNAL_INFO \<Rightarrow> VIDEO_SIGNAL_INFO" where
  "fill_signal_info m info = info
     \<lparr>VideoStandard := D3DKMDT_VMS_OTHER,
      TotalSize := (TotalSize info)\<lparr>cx := Width m, cy := Height m\<rparr>,
      ActiveSize := (ActiveSize info)\<lparr>cx := Width m, cy := Height m\<rparr>,
      VSyncFreq := (VSyncFreq info)\<lparr>Numerator := RefreshRate m, Denominator := 1\<rparr>,
      HSyncFreq := (HSyncFreq info)\<lparr>Numerator := RefreshRate m * Height m, Denominator := 1\<rparr>,
      PixelRate := ucast (Width m) * ucast (Height m) * ucast (RefreshRate m),
      ScanLineOrdering := D3DDDI_VSSLO_PROGRESSIVE\<rparr>"

text \<open>
  The mode buffers are arrays owned by the host, written by index. The loop index stays
  below \<open>modeCount\<close>, which is at most the catalogue size, so it is a \<open>nat\<close>.
\<close>

type_synonym monitor_mode_buffer = "nat \<Rightarrow> IDDCX_MONITOR_MODE"
type_synonym target_mode_buffer = "nat \<Rightarrow> IDDCX_TARGET_MODE"

function default_modes_loop :: "nat \<Rightarrow> nat \<Rightarrow> monitor_mode_buffer \<Rightarrow> monitor_mode_buffer" where
  "default_modes_loop i modeCount pDefaultMonitorModes =
     (if i < modeCount
      then default_modes_loop (i + 1) modeCount
             (pDefaultMonitorModes
                (i := (pDefaultMonitorModes i)
                   \<lparr>Origin := IDDCX_MONITOR_MODE_ORIGIN_DRIVER,
                    MonitorVideoSignalInfo :=
                      fill_signal_info (g_SupportedModes ! i)
                        (MonitorVideoSignalInfo (pDefaultMonitorModes i))\<rparr>))
      else pDefaultMonitorModes)"
  by pat_completeness auto
termination
  by (relation "measure (\<lambda>(i, modeCount, buf). modeCount - i)") auto

function target_modes_loop :: "nat \<Rightarrow> nat \<Rightarrow> target_mode_buffer \<Rightarrow> target_mode_buffer" where
  "target_modes_loop i modeCount pTargetModes =
     (if i < modeCount
      then target_modes_loop (i + 1) modeCount
             (pTargetModes
                (i := (pTargetModes i)
                   \<lparr>TargetVideoSignalInfo :=
                      fill_signal_info (g_SupportedModes ! i)
                        (TargetVideoSignalInfo (pTargetModes i))\<rparr>))
      else pTargetModes)"
  by pat_completeness auto
termination
  by (relation "measure (\<lambda>(i, modeCount, buf). modeCount - i)") auto

text \<open>
  \<open>UINT modeCount = min(InputCount, SUPPORTED_MODE_COUNT)\<close>: the comparison is made at the
  width of \<open>size_t\<close>, and the result, at most the catalogue size, fits a \<open>UINT\<close>.
\<close>

record default_modes_out =
  DefaultMonitorModes :: monitor_mode_buffer
  DefaultMonitorModeBufferOutputCount :: UINT
  PreferredMonitorModeIdx :: UINT

record target_modes_out =
  TargetModes :: target_mode_buffer
  TargetModeBufferOutputCount :: UINT

definition ExpandScreenEvtMonitorGetDefaultModes ::
    "UINT \<Rightarrow> monitor_mode_buffer \<Rightarrow> NTSTATUS \<times> default_modes_out" where
  "ExpandScreenEvtMonitorGetDefaultModes DefaultMonitorModeBufferInputCount pDefaultMonitorModes =
     (let modeCount = min (unat DefaultMonitorModeBufferInputCount) SUPPORTED_MODE_COUNT
      in (STATUS_SUCCESS,
          \<lparr>DefaultMonitorModes = default_modes_loop 0 modeCount pDefaultMonitorModes,
           DefaultMonitorModeBufferOutputCount = of_nat modeCount,
           PreferredMonitorModeIdx = 0\<rparr>))"

definition ExpandScreenEvtMonitorQueryTargetModes ::
    "UINT \<Rightarrow> target_mode_buffer \<Rightarrow> NTSTATUS \<times> target_modes_out" where
  "ExpandScreenEvtMonitorQueryTargetModes TargetModeBufferInputCount pTargetModes =
     (let modeCount = min (unat TargetModeBufferInputCount) SUPPORTED_MODE_COUNT
      in (STATUS_SUCCESS,
          \<lparr>TargetModes = target_modes_loop 0 modeCount pTargetModes,
           TargetModeBufferOutputCount = of_nat modeCount\<rparr>))"

section \<open>Host objects, driver state and host calls\<close>

text \<open>
  \<open>IDDCX_ADAPTER\<close>, \<open>IDDCX_MONITOR\<close> and \<open>IDDCX_SWAPCHAIN\<close> are opaque handles issued by
  the host; where the code stores \<open>nullptr\<close>, the model stores \<open>None\<close>.
\<close>

type_synonym handle = nat

text \<open>
  Driver.h, \<open>MONITOR_CONTEXT\<close>. Field names that several structures share carry the
  structure's initials in the model.
\<close>

record MONITOR_CONTEXT =
  mc_Monitor :: handle
  mc_Adapter :: handle
  mc_MonitorId :: UINT
  mc_IsActive :: bool
  mc_SwapChain :: "handle option"

text \<open>
  The state the modelled functions read and write: the file-level counter of Monitor.cpp,
  the two fields of the \<open>DEVICE_CONTEXT\<close> they use (\<open>Adapter\<close> and \<open>MonitorCount\<close>, which
  device creation zeroes), and the context memory of each monitor object, found by
  \<open>GetMonitorContext\<close>.
\<close>

record driver_state =
  g_MonitorIdCounter :: LONG
  dc_Adapter :: handle
  dc_MonitorCount :: LONG
  monitor_contexts :: "handle \<rightharpoonup> MONITOR_CONTEXT"

datatype DISPLAYCONFIG_VIDEO_OUTPUT_TECHNOLOGY =
    DISPLAYCONFIG_OUTPUT_TECHNOLOGY_OTHER
  | DISPLAYCONFIG_OUTPUT_TECHNOLOGY_DISPLAYPORT_EXTERNAL

datatype IDDCX_MONITOR_DESCRIPTION_TYPE =
    IDDCX_MONITOR_DESCRIPTION_TYPE_UNINITIALIZED
  | IDDCX_MONITOR_DESCRIPTION_TYPE_EDID

record IDDCX_MONITOR_DESCRIPTION =
  DescriptionType :: IDDCX_MONITOR_DESCRIPTION_TYPE
  DataSize :: UINT
  pData :: buffer

definition GUID_NULL :: "128 word" where
  "GUID_NULL = 0"

record IDDCX_MONITOR_INFO =
  ConnectorIndex :: UINT
  MonitorType :: DISPLAYCONFIG_VIDEO_OUTPUT_TECHNOLOGY
  MonitorContainerId :: "128 word"
  MonitorDescription :: IDDCX_MONITOR_DESCRIPTION

text \<open>
  The calls the driver makes into the host, with the arguments it passes. The swap-chain
  call carries the surface of its input arguments and whether it was given a place for
  output arguments.
\<close>

datatype host_call =
    IddCxMonitorCreate handle IDDCX_MONITOR_INFO
  | IddCxMonitorSetCallbacks handle
  | IddCxMonitorArrival handle
  | IddCxSwapChainReleaseAndAcquireBuffer handle "handle option" bool

text \<open>What the host answers to the three calls of \<open>CreateMonitor\<close>.\<close>

record monitor_host =
  IddCxMonitorCreate_status :: NTSTATUS
  MonitorObject :: handle
  IddCxMonitorSetCallbacks_status :: NTSTATUS
  IddCxMonitorArrival_status :: NTSTATUS

section \<open>Monitor.cpp: monitor creation and the swap-chain callbacks\<close>

text \<open>\<open>BYTE edidData[EDID_SIZE] = { 0 }\<close>\<close>

definition zero_buffer :: buffer where
  "zero_buffer = (\<lambda>i. 0)"

text \<open>
  \<open>CreateMonitor\<close> returns its status, the monitor written to the output parameter, and
  the host calls it made, with the new state.
\<close>

definition CreateMonitor ::
    "monitor_host \<Rightarrow> handle \<Rightarrow> driver_state
       \<Rightarrow> (NTSTATUS \<times> handle option \<times> host_call list) \<times> driver_state" where
  "CreateMonitor host Adapter s =
     (let (index, counter) = InterlockedIncrement (g_MonitorIdCounter s);
          s1 = s\<lparr>g_MonitorIdCounter := counter\<rparr>;
          (status, written) = GenerateEdid (Some zero_buffer) 1920 1080
      in if \<not> NT_SUCCESS status then ((status, None, []), s1)
         else
           let edidData = (case written of Some buf \<Rightarrow> buf | None \<Rightarrow> zero_buffer);
               monitorInfo =
                 \<lparr>ConnectorIndex = index,
                  MonitorType = DISPLAYCONFIG_OUTPUT_TECHNOLOGY_DISPLAYPORT_EXTERNAL,
                  MonitorContainerId = GUID_NULL,
                  MonitorDescription =
                    \<lparr>DescriptionType = IDDCX_MONITOR_DESCRIPTION_TYPE_EDID,
                     DataSize = of_nat EDID_SIZE,
                     pData = edidData\<rparr>\<rparr>;
               call1 = IddCxMonitorCreate Adapter monitorInfo;
               status = IddCxMonitorCreate_status host
           in if \<not> NT_SUCCESS status then ((status, None, [call1]), s1)
              else
                let Monitor = MonitorObject host;
                    monitorContext =
                      \<lparr>mc_Monitor = Monitor,
                       mc_Adapter = Adapter,
                       mc_MonitorId = ConnectorIndex monitorInfo,
                       mc_IsActive = False,
                       mc_SwapChain = None\<rparr>;
                    s2 = s1\<lparr>monitor_contexts := (monitor_contexts s1)(Monitor \<mapsto> monitorContext)\<rparr>;
                    call2 = IddCxMonitorSetCallbacks Monitor;
                    status = IddCxMonitorSetCallbacks_status host
                in if \<not> NT_SUCCESS status then ((status, Some Monitor, [call1, call2]), s2)
                   else
                     let call3 = IddCxMonitorArrival Monitor;
                         status = IddCxMonitorArrival_status host
                     in if \<not> NT_SUCCESS status
                        then ((status, Some Monitor, [call1, call2, call3]), s2)
                        else ((STATUS_SUCCESS, Some Monitor, [call1, call2, call3]), s2))"

text \<open>
  The two swap-chain callbacks work on the context of the monitor object they are called
  for.
\<close>

definition ExpandScreenEvtMonitorAssignSwapChain ::
    "handle \<Rightarrow> MONITOR_CONTEXT \<Rightarrow> NTSTATUS \<times> MONITOR_CONTEXT" where
  "ExpandScreenEvtMonitorAssignSwapChain hSwapChain monitorContext =
     (STATUS_SUCCESS, monitorContext\<lparr>mc_SwapChain := Some hSwapChain, mc_IsActive := True\<rparr>)"

definition ExpandScreenEvtMonitorUnassignSwapChain ::
    "MONITOR_CONTEXT \<Rightarrow> NTSTATUS \<times> MONITOR_CONTEXT" where
  "ExpandScreenEvtMonitorUnassignSwapChain monitorContext =
     (STATUS_SUCCESS, monitorContext\<lparr>mc_SwapChain := None, mc_IsActive := False\<rparr>)"

section \<open>Adapter.cpp: the adapter callbacks\<close>

definition ExpandScreenEvtAdapterInitFinished ::
    "monitor_host \<Rightarrow> handle \<Rightarrow> NTSTATUS \<Rightarrow> driver_state
       \<Rightarrow> (NTSTATUS \<times> host_call list) \<times> driver_state" where
  "ExpandScreenEvtAdapterInitFinished host AdapterObject AdapterInitStatus s =
     (if \<not> NT_SUCCESS AdapterInitStatus then ((AdapterInitStatus, []), s)
      else
        let ((status, monitor, calls), s1) = CreateMonitor host AdapterObject s
        in if \<not> NT_SUCCESS status then ((status, calls), s1)
           else
             let (incremented, count) = InterlockedIncrement (dc_MonitorCount s1)
             in ((STATUS_SUCCESS, calls), s1\<lparr>dc_MonitorCount := count\<rparr>))"

definition ExpandScreenEvtAdapterCommitModes :: "handle \<Rightarrow> NTSTATUS" where
  "ExpandScreenEvtAdapterCommitModes AdapterObject = STATUS_SUCCESS"

section \<open>Ioctl.cpp: the control interface\<close>

text \<open>
  The request codes are built by \<open>CTL_CODE\<close> of the Windows headers:
  \<open>((DeviceType) << 16) | ((Access) << 14) | ((Function) << 2) | (Method)\<close>.
\<close>

definition CTL_CODE :: "UINT \<Rightarrow> UINT \<Rightarrow> UINT \<Rightarrow> UINT \<Rightarrow> UINT" where
  "CTL_CODE DeviceType Function Method Access =
     push_bit 16 DeviceType OR push_bit 14 Access OR push_bit 2 Function OR Method"

definition FILE_DEVICE_VIDEO :: UINT where
  "FILE_DEVICE_VIDEO = 0x00000023"

definition METHOD_BUFFERED :: UINT where
  "METHOD_BUFFERED = 0"

definition FILE_ANY_ACCESS :: UINT where
  "FILE_ANY_ACCESS = 0"

definition FILE_READ_ACCESS :: UINT where
  "FILE_READ_ACCESS = 0x0001"

definition IOCTL_EXPANDSCREEN_CREATE_MONITOR :: UINT where
  "IOCTL_EXPANDSCREEN_CREATE_MONITOR =
     CTL_CODE FILE_DEVICE_VIDEO 0x800 METHOD_BUFFERED FILE_ANY_ACCESS"

definition IOCTL_EXPANDSCREEN_DESTROY_MONITOR :: UINT where
  "IOCTL_EXPANDSCREEN_DESTROY_MONITOR =
     CTL_CODE FILE_DEVICE_VIDEO 0x801 METHOD_BUFFERED FILE_ANY_ACCESS"

definition IOCTL_EXPANDSCREEN_GET_ADAPTER_INFO :: UINT where
  "IOCTL_EXPANDSCREEN_GET_ADAPTER_INFO =
     CTL_CODE FILE_DEVICE_VIDEO 0x802 METHOD_BUFFERED FILE_READ_ACCESS"

record EXPANDSCREEN_CREATE_MONITOR_INPUT =
  cmi_Width :: UINT
  cmi_Height :: UINT
  cmi_RefreshRate :: UINT

record EXPANDSCREEN_CREATE_MONITOR_OUTPUT =
  cmo_MonitorId :: UINT
  cmo_Status :: NTSTATUS

record EXPANDSCREEN_ADAPTER_INFO =
  ai_MonitorCount :: UINT
  ai_MaxMonitors :: UINT

text \<open>
  What the host answers while a request is handled: the outcome of retrieving the input
  and the output buffer, the content of the input buffer, and the answers to the calls of
  \<open>CreateMonitor\<close>.
\<close>

record ioctl_host =
  RetrieveInputBuffer_status :: NTSTATUS
  pInput :: EXPANDSCREEN_CREATE_MONITOR_INPUT
  RetrieveOutputBuffer_status :: NTSTATUS
  monitor_answers :: monitor_host

text \<open>
  How a request ends: the status and byte count given to
  \<open>WdfRequestCompleteWithInformation\<close>, and the record the handler wrote to the output
  buffer, if it wrote one. Both output structures are two 4-byte fields, so their
  \<open>sizeof\<close> is 8.
\<close>

record ioctl_result =
  completion_status :: NTSTATUS
  bytesReturned :: nat
  create_output :: "EXPANDSCREEN_CREATE_MONITOR_OUTPUT option"
  info_output :: "EXPANDSCREEN_ADAPTER_INFO option"

definition ExpandScreenEvtIoDeviceControl ::
    "ioctl_host \<Rightarrow> UINT \<Rightarrow> driver_state \<Rightarrow> (ioctl_result \<times> host_call list) \<times> driver_state" where
  "ExpandScreenEvtIoDeviceControl host IoControlCode s =
     (if IoControlCode = IOCTL_EXPANDSCREEN_CREATE_MONITOR then
        let status = RetrieveInputBuffer_status host
        in if \<not> NT_SUCCESS status
           then ((\<lparr>completion_status = status, bytesReturned = 0,
                    create_output = None, info_output = None\<rparr>, []), s)
           else
             let status = RetrieveOutputBuffer_status host
             in if \<not> NT_SUCCESS status
                then ((\<lparr>completion_status = status, bytesReturned = 0,
                         create_output = None, info_output = None\<rparr>, []), s)
                else
                  let ((status, monitor, calls), s1) =
                        CreateMonitor (monitor_answers host) (dc_Adapter s) s
                  in if NT_SUCCESS status
                     then
                       let (incremented, count) = InterlockedIncrement (dc_MonitorCount s1);
                           s2 = s1\<lparr>dc_MonitorCount := count\<rparr>;
                           (monitorId, counter) = InterlockedIncrement (g_MonitorIdCounter s2);
                           s3 = s2\<lparr>g_MonitorIdCounter := counter\<rparr>
                       in ((\<lparr>completion_status = STATUS_SUCCESS, bytesReturned = 8,
                               create_output =
                                 Some \<lparr>cmo_MonitorId = monitorId, cmo_Status = STATUS_SUCCESS\<rparr>,
                               info_output = None\<rparr>, calls), s3)
                     else
                       ((\<lparr>completion_status = STATUS_SUCCESS, bytesReturned = 0,
                           create_output = Some \<lparr>cmo_MonitorId = 0, cmo_Status = status\<rparr>,
                           info_output = None\<rparr>, calls), s1)
      else if IoControlCode = IOCTL_EXPANDSCREEN_DESTROY_MONITOR then
        ((\<lparr>completion_status = STATUS_NOT_IMPLEMENTED, bytesReturned = 0,
            create_output = None, info_output = None\<rparr>, []), s)
      else if IoControlCode = IOCTL_EXPANDSCREEN_GET_ADAPTER_INFO then
        let status = RetrieveOutputBuffer_status host
        in if \<not> NT_SUCCESS status
           then ((\<lparr>completion_status = status, bytesReturned = 0,
                    create_output = None, info_output = None\<rparr>, []), s)
           else
             ((\<lparr>completion_status = STATUS_SUCCESS, bytesReturned = 8,
                 create_output = None,
                 info_output =
                   Some \<lparr>ai_MonitorCount = dc_MonitorCount s, ai_MaxMonitors = 4\<rparr>\<rparr>, []), s)
      else
        ((\<lparr>completion_status = STATUS_INVALID_DEVICE_REQUEST, bytesReturned = 0,
            create_output = None, info_output = None\<rparr>, []), s))"

section \<open>SwapChain.cpp: one step of frame processing\<close>

text \<open>Driver.h, \<open>SWAPCHAIN_CONTEXT\<close>: the fields the step reads, and the termination flag.\<close>

record SWAPCHAIN_CONTEXT =
  sc_SwapChain :: handle
  sc_TerminateThread :: bool

text \<open>
  What the host answers to the two calls of the step: the status and output arguments of
  the first call, and the status of the second.
\<close>

record swapchain_host =
  first_status :: NTSTATUS
  first_DirtyRectCount :: UINT
  first_pSurface :: "handle option"
  second_status :: NTSTATUS

text \<open>
  The step. The branch on \<open>DirtyRectCount\<close> only writes a trace message on either side,
  so it leaves nothing in the model.
\<close>

definition ProcessSwapChainFrame ::
    "swapchain_host \<Rightarrow> SWAPCHAIN_CONTEXT \<Rightarrow> NTSTATUS \<times> host_call list" where
  "ProcessSwapChainFrame host SwapChainContext =
     (let swapChain = sc_SwapChain SwapChainContext;
          call1 = IddCxSwapChainReleaseAndAcquireBuffer swapChain None True;
          status = first_status host
      in if \<not> NT_SUCCESS status then (status, [call1])
         else
           let call2 = IddCxSwapChainReleaseAndAcquireBuffer swapChain (first_pSurface host) False;
               status = second_status host
           in (status, [call1, call2]))"

section \<open>Runs of the driver\<close>

text \<open>
  The host drives the driver through its callbacks. An event is one callback invocation
  together with what the host answers during it; a run handles a list of events one after
  the other, as the sequential request queue and the host do.
\<close>

datatype event =
    AdapterInitFinished monitor_host handle NTSTATUS
  | AdapterCommitModes handle
  | IoDeviceControl ioctl_host UINT
  | MonitorGetDefaultModes UINT monitor_mode_buffer
  | MonitorQueryTargetModes UINT target_mode_buffer
  | MonitorAssignSwapChain handle handle
  | MonitorUnassignSwapChain handle
  | SwapChainFrame swapchain_host SWAPCHAIN_CONTEXT

text \<open>What an event shows to the outside: host calls, returned statuses, completed requests.\<close>

datatype observation =
    Call host_call
  | Status NTSTATUS
  | Completion ioctl_result

text \<open>
  The swap-chain callbacks get the context of the monitor object they are invoked for; the
  host invokes them for monitor objects it has created, and an event for any other handle
  changes nothing.
\<close>

fun step :: "event \<Rightarrow> driver_state \<Rightarrow> observation list \<times> driver_state" where
  "step (AdapterInitFinished host AdapterObject AdapterInitStatus) s =
     (let ((status, calls), s') =
            ExpandScreenEvtAdapterInitFinished host AdapterObject AdapterInitStatus s
      in (map Call calls @ [Status status], s'))"
| "step (AdapterCommitModes AdapterObject) s =
     ([Status (ExpandScreenEvtAdapterCommitModes AdapterObject)], s)"
| "step (IoDeviceControl host IoControlCode) s =
     (let ((result, calls), s') = ExpandScreenEvtIoDeviceControl host IoControlCode s
      in (map Call calls @ [Completion result], s'))"
| "step (MonitorGetDefaultModes inputCount modes) s =
     ([Status (fst (ExpandScreenEvtMonitorGetDefaultModes inputCount modes))], s)"
| "step (MonitorQueryTargetModes inputCount modes) s =
     ([Status (fst (ExpandScreenEvtMonitorQueryTargetModes inputCount modes))], s)"
| "step (MonitorAssignSwapChain monitorObject hSwapChain) s =
     (case monitor_contexts s monitorObject of
        None \<Rightarrow> ([], s)
      | Some monitorContext \<Rightarrow>
          let (status, monitorContext') =
                ExpandScreenEvtMonitorAssignSwapChain hSwapChain monitorContext
          in ([Status status],
              s\<lparr>monitor_contexts := (monitor_contexts s)(monitorObject \<mapsto> monitorContext')\<rparr>))"
| "step (MonitorUnassignSwapChain monitorObject) s =
     (case monitor_contexts s monitorObject of
        None \<Rightarrow> ([], s)
      | Some monitorContext \<Rightarrow>
          let (status, monitorContext') = ExpandScreenEvtMonitorUnassignSwapChain monitorContext
          in ([Status status],
              s\<lparr>monitor_contexts := (monitor_contexts s)(monitorObject \<mapsto> monitorContext')\<rparr>))"
| "step (SwapChainFrame host SwapChainContext) s =
     (let (status, calls) = ProcessSwapChainFrame host SwapChainContext
      in (map Call calls @ [Status status], s))"

fun run :: "event list \<Rightarrow> driver_state \<Rightarrow> observation list \<times> driver_state" where
  "run [] s = ([], s)"
| "run (e # es) s =
     (let (obs1, s1) = step e s;
          (obs2, s2) = run es s1
      in (obs1 @ obs2, s2))"

text \<open>
  The state after driver load: \<open>static LONG g_MonitorIdCounter = 0\<close>, a device context
  zeroed by \<open>RtlZeroMemory\<close> and then given the adapter, and no monitor object yet.
\<close>

definition initial_state :: "handle \<Rightarrow> driver_state" where
  "initial_state Adapter =
     \<lparr>g_MonitorIdCounter = 0, dc_Adapter = Adapter, dc_MonitorCount = 0,
      monitor_contexts = Map.empty\<rparr>"

section \<open>Reading observations\<close>

text \<open>The connector indices given to the host, in order: the monitor ids allocated.\<close>

fun allocated_ids :: "observation list \<Rightarrow> UINT list" where
  "allocated_ids [] = []"
| "allocated_ids (Call (IddCxMonitorCreate Adapter monitorInfo) # obs) =
     ConnectorIndex monitorInfo # allocated_ids obs"
| "allocated_ids (x # obs) = allocated_ids obs"

text \<open>The output records written by create-monitor requests, in order.\<close>

fun output_records :: "observation list \<Rightarrow> EXPANDSCREEN_CREATE_MONITOR_OUTPUT list" where
  "output_records [] = []"
| "output_records (Completion result # obs) =
     (case create_output result of
        None \<Rightarrow> output_records obs
      | Some out \<Rightarrow> out # output_records obs)"
| "output_records (x # obs) = output_records obs"

text \<open>The ids returned to callers by successful create-monitor requests.\<close>

definition returned_ids :: "observation list \<Rightarrow> UINT list" where
  "returned_ids obs = map cmo_MonitorId (filter (\<lambda>out. NT_SUCCESS (cmo_Status out)) (output_records obs))"

text \<open>The descriptor data of each monitor given to the host: \<open>DataSize\<close> bytes from \<open>pData\<close>.\<close>

definition description_data :: "IDDCX_MONITOR_DESCRIPTION \<Rightarrow> BYTE list" where
  "description_data description = bytes_of (pData description) (unat (DataSize description))"

fun submitted_descriptions :: "host_call list \<Rightarrow> BYTE list list" where
  "submitted_descriptions [] = []"
| "submitted_descriptions (IddCxMonitorCreate Adapter monitorInfo # calls) =
     description_data (MonitorDescription monitorInfo) # submitted_descriptions calls"
| "submitted_descriptions (c # calls) = submitted_descriptions calls"

text \<open>The 128-byte block the encoder produces for a width and a height.\<close>

definition descriptor_block :: "UINT \<Rightarrow> UINT \<Rightarrow> BYTE list" where
  "descriptor_block w h =
     (case GenerateEdid (Some zero_buffer) w h of
        (status, Some e) \<Rightarrow> bytes_of e 128
      | (status, None) \<Rightarrow> [])"

text \<open>
  The second call of the frame step, the one that gives the surface back, is the call
  made without a place for output arguments.
\<close>

fun release_calls :: "host_call list \<Rightarrow> host_call list" where
  "release_calls [] = []"
| "release_calls (IddCxSwapChainReleaseAndAcquireBuffer swapChain pSurface False # calls) =
     IddCxSwapChainReleaseAndAcquireBuffer swapChain pSurface False # release_calls calls"
| "release_calls (c # calls) = release_calls calls"

text \<open>
  The status of the \<open>CreateMonitor\<close> call an event makes, if it makes one, and the
  completion status of a destroy request.
\<close>

fun creation_status :: "event \<Rightarrow> driver_state \<Rightarrow> NTSTATUS option" where
  "creation_status (AdapterInitFinished host AdapterObject AdapterInitStatus) s =
     (if NT_SUCCESS AdapterInitStatus
      then Some (fst (fst (CreateMonitor host AdapterObject s)))
      else None)"
| "creation_status (IoDeviceControl host IoControlCode) s =
     (if IoControlCode = IOCTL_EXPANDSCREEN_CREATE_MONITOR
         \<and> NT_SUCCESS (RetrieveInputBuffer_status host)
         \<and> NT_SUCCESS (RetrieveOutputBuffer_status host)
      then Some (fst (fst (CreateMonitor (monitor_answers host) (dc_Adapter s) s)))
      else None)"
| "creation_status e s = None"

fun destruction_status :: "event \<Rightarrow> driver_state \<Rightarrow> NTSTATUS option" where
  "destruction_status (IoDeviceControl host IoControlCode) s =
     (if IoControlCode = IOCTL_EXPANDSCREEN_DESTROY_MONITOR
      then Some (completion_status (fst (fst (ExpandScreenEvtIoDeviceControl host IoControlCode s))))
      else None)"
| "destruction_status e s = None"

definition succeeded :: "NTSTATUS option \<Rightarrow> bool" where
  "succeeded r = (case r of None \<Rightarrow> False | Some status \<Rightarrow> NT_SUCCESS status)"

text \<open>The numbers of successful creations and of successful destructions in a run.\<close>

fun successful_creations :: "event list \<Rightarrow> driver_state \<Rightarrow> nat" where
  "successful_creations [] s = 0"
| "successful_creations (e # es) s =
     (if succeeded (creation_status e s) then 1 else 0)
       + successful_creations es (snd (step e s))"

fun successful_destructions :: "event list \<Rightarrow> driver_state \<Rightarrow> nat" where
  "successful_destructions [] s = 0"
| "successful_destructions (e # es) s =
     (if succeeded (destruction_status e s) then 1 else 0)
       + successful_destructions es (snd (step e s))"

text \<open>
  Hosts and requests for concrete runs: a host that accepts a monitor and hands out the
  given monitor object, a host that refuses \<open>IddCxMonitorCreate\<close>, and a create-monitor
  request whose buffers are both present.
\<close>

definition STATUS_UNSUCCESSFUL :: NTSTATUS where
  "STATUS_UNSUCCESSFUL = 0xC0000001"

definition host_accepts :: "handle \<Rightarrow> monitor_host" where
  "host_accepts monitor =
     \<lparr>IddCxMonitorCreate_status = STATUS_SUCCESS,
      MonitorObject = monitor,
      IddCxMonitorSetCallbacks_status = STATUS_SUCCESS,
      IddCxMonitorArrival_status = STATUS_SUCCESS\<rparr>"

definition host_refuses :: monitor_host where
  "host_refuses =
     \<lparr>IddCxMonitorCreate_status = STATUS_UNSUCCESSFUL,
      MonitorObject = 0,
      IddCxMonitorSetCallbacks_status = STATUS_SUCCESS,
      IddCxMonitorArrival_status = STATUS_SUCCESS\<rparr>"

definition create_host :: "monitor_host \<Rightarrow> ioctl_host" where
  "create_host answers =
     \<lparr>RetrieveInputBuffer_status = STATUS_SUCCESS,
      pInput = \<lparr>cmi_Width = 1920, cmi_Height = 1080, cmi_RefreshRate = 60\<rparr>,
      RetrieveOutputBuffer_status = STATUS_SUCCESS,
      monitor_answers = answers\<rparr>"

definition create_request :: "monitor_host \<Rightarrow> event" where
  "create_request answers =
     IoDeviceControl (create_host answers) IOCTL_EXPANDSCREEN_CREATE_MONITOR"

definition destroy_request :: event where
  "destroy_request =
     IoDeviceControl
       \<lparr>RetrieveInputBuffer_status = STATUS_SUCCESS,
        pInput = \<lparr>cmi_Width = 0, cmi_Height = 0, cmi_RefreshRate = 0\<rparr>,
        RetrieveOutputBuffer_status = STATUS_SUCCESS,
        monitor_answers = host_refuses\<rparr>
       IOCTL_EXPANDSCREEN_DESTROY_MONITOR"

text \<open>A run of \<open>n\<close> create-monitor requests, each accepted with a monitor object of its own.\<close>

definition accepted_requests :: "nat \<Rightarrow> event list" where
  "accepted_requests n = map (\<lambda>monitor. create_request (host_accepts monitor)) [0..<n]"

text \<open>Mode buffers as the host hands them over, not yet filled in.\<close>

definition blank_signal_info :: VIDEO_SIGNAL_INFO where
  "blank_signal_info =
     \<lparr>VideoStandard = D3DKMDT_VSS_UNINITIALIZED,
      TotalSize = \<lparr>cx = 0, cy = 0\<rparr>,
      ActiveSize = \<lparr>cx = 0, cy = 0\<rparr>,
      VSyncFreq = \<lparr>Numerator = 0, Denominator = 0\<rparr>,
      HSyncFreq = \<lparr>Numerator = 0, Denominator = 0\<rparr>,
      PixelRate = 0,
      ScanLineOrdering = D3DDDI_VSSLO_UNINITIALIZED\<rparr>"

definition blank_monitor_modes :: monitor_mode_buffer where
  "blank_monitor_modes i =
     \<lparr>Origin = IDDCX_MONITOR_MODE_ORIGIN_UNINITIALIZED, MonitorVideoSignalInfo = blank_signal_info\<rparr>"

definition blank_target_modes :: target_mode_buffer where
  "blank_target_modes i = \<lparr>TargetVideoSignalInfo = blank_signal_info\<rparr>"

section \<open>The checksum of the descriptor\<close>

lemma checksum_loop_sum:
  "i \<le> 127 \<Longrightarrow>
     checksum_loop i c buf = c + of_nat (sum_list (map (\<lambda>k. unat (buf k)) [i..<127]))"
proof (induction i c buf rule: checksum_loop.induct)
  case (1 i c buf)
  show ?case
  proof (cases "i < 127")
    case True
    then have "[i..<127] = i # [i + 1..<127]"
      by (simp add: upt_conv_Cons)
    with True 1 show ?thesis
      by (simp add: add.assoc)
  next
    case False
    with 1 show ?thesis
      by simp
  qed
qed

lemma cast_256_minus: "(ucast ((256 :: 32 word) - ucast (c :: 8 word)) :: 8 word) = - c"
  by transfer (simp add: take_bit_eq_mod mod_minus_eq)

lemma uint_neg_byte: "uint (- (of_nat S :: 8 word)) = (256 - int S) mod 256"
proof -
  have "uint (of_nat S :: 8 word) = int S mod 256"
    by (simp add: uint_nat unat_of_nat zmod_int)
  then show ?thesis
    by (simp add: uint_word_ariths mod_minus_eq)
qed

lemma edid_checksum_other: "i \<noteq> 127 \<Longrightarrow> edid_checksum buf i = buf i"
  by (simp add: edid_checksum_def Let_def)

lemma edid_checksum_last:
  "edid_checksum buf 127 = - of_nat (sum_list (map (\<lambda>k. unat (buf k)) [0..<127]))"
  by (simp add: edid_checksum_def Let_def cast_256_minus checksum_loop_sum
      del: checksum_loop.simps)

lemma edid_checksum_prefix:
  "sum_list (map (\<lambda>k. unat (edid_checksum buf k)) [0..<127])
     = sum_list (map (\<lambda>k. unat (buf k)) [0..<127])"
  by (rule arg_cong [where f = sum_list], rule map_cong)
    (simp_all add: edid_checksum_other del: upt_rec_numeral)

lemma edid_checksum_invariant:
  fixes buf :: buffer
  defines "e \<equiv> edid_checksum buf"
  shows "int (unat (e 127)) = (256 - int (sum_list (map (\<lambda>i. unat (e i)) [0..<127]))) mod 256"
    and "sum_list (map (\<lambda>i. unat (e i)) [0..<128]) mod 256 = 0"
proof -
  let ?S = "sum_list (map (\<lambda>k. unat (buf k)) [0..<127])"
  have pre: "sum_list (map (\<lambda>i. unat (e i)) [0..<127]) = ?S"
    unfolding e_def by (rule edid_checksum_prefix)
  have last: "int (unat (e 127)) = (256 - int ?S) mod 256"
    unfolding e_def edid_checksum_last by (simp add: uint_neg_byte)
  show "int (unat (e 127)) = (256 - int (sum_list (map (\<lambda>i. unat (e i)) [0..<127]))) mod 256"
    by (simp only: pre last)
  have split: "[0..<128] = [0..<127] @ [127]"
    by (simp add: upt_rec [of 127] upt_add_eq_append [of 0 127 1, simplified])
  have "int (sum_list (map (\<lambda>i. unat (e i)) [0..<128])) = int ?S + int (unat (e 127))"
    by (simp only: split map_append sum_list_append pre) simp
  also have "\<dots> = int ?S + (256 - int ?S) mod 256"
    by (simp only: last)
  finally have "int (sum_list (map (\<lambda>i. unat (e i)) [0..<128])) mod 256 = 0"
    by (simp add: mod_add_right_eq)
  then have "int (sum_list (map (\<lambda>i. unat (e i)) [0..<128]) mod 256) = 0"
    by (simp add: zmod_int)
  then show "sum_list (map (\<lambda>i. unat (e i)) [0..<128]) mod 256 = 0"
    by (simp only: of_nat_eq_0_iff)
qed

text \<open>
  Claim C1. For every width and height and every non-null output buffer, \<open>GenerateEdid\<close>
  succeeds and the block it leaves satisfies the checksum invariant: with \<open>S\<close> the sum of
  bytes 0 to 126, byte 127 is \<open>(256 - S) mod 256\<close>, and the sum of all 128 bytes is 0
  modulo 256.
\<close>

theorem GenerateEdid_checksum:
  "\<exists>e. GenerateEdid (Some buf) w h = (STATUS_SUCCESS, Some e)
     \<and> int (unat (e 127)) = (256 - int (sum_list (map (\<lambda>i. unat (e i)) [0..<127]))) mod 256
     \<and> sum_list (map (\<lambda>i. unat (e i)) [0..<128]) mod 256 = 0"
proof -
  let ?pre = "edid_tail (edid_display_name (edid_preferred_timing w h
    (edid_color_timings (edid_basic_display w h (edid_vendor (edid_header
      (RtlZeroMemory buf 0 EDID_SIZE)))))))"
  have "GenerateEdid (Some buf) w h = (STATUS_SUCCESS, Some (edid_checksum ?pre))"
    by (simp add: GenerateEdid_def)
  then show ?thesis
    by (intro exI [of _ "edid_checksum ?pre"] conjI edid_checksum_invariant)
qed

section \<open>The computed fields of the descriptor\<close>

lemma GenerateEdid_fields:
  "\<exists>e. GenerateEdid (Some buf) w h = (STATUS_SUCCESS, Some e)
     \<and> e 21 = ucast (w * 254 div 960 div 10)
     \<and> e 22 = ucast (h * 254 div 960 div 10)
     \<and> e 54 = ucast (w * h * 60 div 10000 AND 0xFF)
     \<and> e 55 = ucast (drop_bit 8 (w * h * 60 div 10000) AND 0xFF)"
  by (simp add: GenerateEdid_def edid_checksum_other edid_tail_def edid_display_name_def
      edid_preferred_timing_def edid_color_timings_def edid_basic_display_def RtlZeroMemory_def
      displayName_def Let_def)

lemma size_byte:
  "unat (ucast ((w :: 32 word) * 254 div 960 div 10) :: 8 word)
     = unat w * 254 mod 2 ^ 32 div 9600 mod 256"
proof -
  have "x div 960 div 10 = x div 9600" for x :: nat
    by (simp flip: div_mult2_eq)
  then show ?thesis
    by (simp add: unsigned_ucast_eq unat_div unat_word_ariths take_bit_eq_mod)
qed

lemma size_byte_small:
  assumes "unat (w :: 32 word) \<le> 9675"
  shows "unat w * 254 mod 2 ^ 32 div 9600 mod 256 = unat w * 254 div 9600"
proof -
  from assms have "unat w * 254 \<le> 9675 * 254"
    by simp
  then have lt: "unat w * 254 < 2 ^ 32"
    by simp
  from assms have "unat w * 254 div 9600 \<le> 9675 * 254 div 9600"
    by (intro div_le_mono) simp
  then have "unat w * 254 div 9600 < 256"
    by simp
  with lt show ?thesis
    by simp
qed

lemma descriptor_block_nth:
  "i < 128 \<Longrightarrow> GenerateEdid (Some zero_buffer) w h = (st, Some e)
     \<Longrightarrow> descriptor_block w h ! i = e i"
  by (simp add: descriptor_block_def bytes_of_def)

text \<open>
  Claim C4. The descriptor generated for width 1920 and height 1080 has the pixel clock
  field, bytes 54 and 55 read as a little-endian 16-bit value, equal to
  \<open>12441 = 1920 * 1080 * 60 / 10000\<close>, byte 21 equal to 50 and byte 22 equal to 28.
\<close>

theorem GenerateEdid_1920_1080:
  "\<exists>e. GenerateEdid (Some buf) 1920 1080 = (STATUS_SUCCESS, Some e)
     \<and> unat (e 54) + 256 * unat (e 55) = 12441
     \<and> 1920 * 1080 * 60 div 10000 = (12441 :: nat)
     \<and> unat (e 21) = 50
     \<and> unat (e 22) = 28"
proof -
  from GenerateEdid_fields [of buf 1920 1080] obtain e where
    e: "GenerateEdid (Some buf) 1920 1080 = (STATUS_SUCCESS, Some e)"
    and f: "e 21 = 50" "e 22 = 28" "e 54 = 0x99" "e 55 = 0x30"
    by auto
  show ?thesis
    by (rule exI [of _ e]) (simp add: e f)
qed

text \<open>
  Claim C5 says that bytes 21 and 22 are the sizes rounded to the nearest integer. The
  code divides with truncation: for the default mode, width 1920 gives 50.8 and height
  1080 gives 28.575, which round to 51 and 29, and the code writes 50 and 28.
\<close>

theorem physical_size_not_rounded:
  "int (unat (descriptor_block 1920 1080 ! 21)) \<noteq> round (1920 * 254 / 9600 :: real)
     \<and> int (unat (descriptor_block 1920 1080 ! 22)) \<noteq> round (1080 * 254 / 9600 :: real)"
proof -
  from GenerateEdid_fields [of zero_buffer 1920 1080] obtain e where
    e: "GenerateEdid (Some zero_buffer) 1920 1080 = (STATUS_SUCCESS, Some e)"
    and f: "e 21 = 50" "e 22 = 28"
    by auto
  have "descriptor_block 1920 1080 ! 21 = 50" "descriptor_block 1920 1080 ! 22 = 28"
    using descriptor_block_nth [OF _ e, of 21] descriptor_block_nth [OF _ e, of 22] f
    by simp_all
  moreover have "round (1920 * 254 / 9600 :: real) = 51" "round (1080 * 254 / 9600 :: real) = 29"
    by (simp_all add: round_def)
  ultimately show ?thesis
    by simp
qed

text \<open>
  Claim C5, as amended. For every width and height, byte 21 is the 32-bit product
  \<open>width * 254\<close> divided by 9600 with truncation, reduced to its low byte, and byte 22 is
  the same for the height. For a width or height up to 9675 nothing wraps and the byte is
  the integer part of \<open>width * 254 / 9600\<close>.
\<close>

theorem GenerateEdid_physical_size:
  "\<exists>e. GenerateEdid (Some buf) w h = (STATUS_SUCCESS, Some e)
     \<and> unat (e 21) = unat w * 254 mod 2 ^ 32 div 9600 mod 256
     \<and> unat (e 22) = unat h * 254 mod 2 ^ 32 div 9600 mod 256
     \<and> (unat w \<le> 9675 \<longrightarrow> unat (e 21) = unat w * 254 div 9600)
     \<and> (unat h \<le> 9675 \<longrightarrow> unat (e 22) = unat h * 254 div 9600)"
proof -
  from GenerateEdid_fields [of buf w h] obtain e where
    e: "GenerateEdid (Some buf) w h = (STATUS_SUCCESS, Some e)"
    and f: "e 21 = ucast (w * 254 div 960 div 10)" "e 22 = ucast (h * 254 div 960 div 10)"
    by auto
  show ?thesis
    by (rule exI [of _ e]) (simp add: e f size_byte size_byte_small del: unsigned_less)
qed

theorem GenerateEdid_physical_size_witness:
  "\<exists>e. GenerateEdid (Some zero_buffer) 1280 720 = (STATUS_SUCCESS, Some e)
     \<and> unat (e 21) = 33 \<and> unat (e 22) = 19"
  using GenerateEdid_physical_size [of zero_buffer 1280 720] by auto

section \<open>The descriptor as a function of width and height\<close>

lemma name_loop_other: "i < 77 \<or> 90 \<le> i \<Longrightarrow> name_loop k n buf i = buf i"
proof (induction k n buf rule: name_loop.induct)
  case (1 k n buf)
  show ?case
  proof (cases "k < 13 \<and> k < n")
    case True
    have "name_loop k n buf i = name_loop (k + 1) n (buf(77 + k := of_char (displayName ! k))) i"
      by (subst name_loop.simps) (simp add: True del: name_loop.simps)
    also have "\<dots> = (buf(77 + k := of_char (displayName ! k))) i"
      using True "1.prems" by (intro "1.IH") simp_all
    also have "\<dots> = buf i"
      using True "1.prems" by auto
    finally show ?thesis .
  next
    case False
    then show ?thesis
      by (subst name_loop.simps) (auto simp del: name_loop.simps)
  qed
qed

lemma name_loop_agree:
  "(\<And>i. i < 256 \<Longrightarrow> a i = b i) \<Longrightarrow> i < 256 \<Longrightarrow> name_loop k n a i = name_loop k n b i"
proof (induction k n a arbitrary: b rule: name_loop.induct)
  case (1 k n a)
  show ?case
  proof (cases "k < 13 \<and> k < n")
    case True
    have "name_loop k n a i = name_loop (k + 1) n (a(77 + k := of_char (displayName ! k))) i"
      by (subst name_loop.simps) (simp add: True del: name_loop.simps)
    also have "\<dots> = name_loop (k + 1) n (b(77 + k := of_char (displayName ! k))) i"
      using True "1.prems" by (intro "1.IH") simp_all
    also have "\<dots> = name_loop k n b i"
      by (subst (2) name_loop.simps) (simp add: True del: name_loop.simps)
    finally show ?thesis .
  next
    case False
    then have "name_loop k n a i = a i" "name_loop k n b i = b i"
      by (subst name_loop.simps, auto simp del: name_loop.simps)+
    with "1.prems" show ?thesis by simp
  qed
qed

lemma checksum_agree:
  assumes "\<And>i. i < 256 \<Longrightarrow> a i = b i"
  shows "checksum_loop 0 0 a = checksum_loop 0 0 b"
proof -
  have "map (\<lambda>k. unat (a k)) [0..<127] = map (\<lambda>k. unat (b k)) [0..<127]"
    by (rule map_cong) (simp_all add: assms del: upt_rec_numeral)
  then have "sum_list (map (\<lambda>k. unat (a k)) [0..<127]) = sum_list (map (\<lambda>k. unat (b k)) [0..<127])"
    by (rule arg_cong)
  moreover have "checksum_loop 0 0 x = 0 + of_nat (sum_list (map (\<lambda>k. unat (x k)) [0..<127]))"
    for x
    by (rule checksum_loop_sum) simp
  ultimately show ?thesis
    by (simp only:)
qed

lemma edid_checksum_agree:
  assumes "\<And>i. i < 256 \<Longrightarrow> a i = b i" and "i < 256"
  shows "edid_checksum a i = edid_checksum b i"
  using assms checksum_agree [of a b] by (simp add: edid_checksum_def Let_def del: checksum_loop.simps)

lemma edid_display_name_agree:
  assumes "\<And>i. i < 256 \<Longrightarrow> a i = b i" and "i < 256"
  shows "edid_display_name a i = edid_display_name b i"
  unfolding edid_display_name_def Let_def
  using assms by (auto simp del: name_loop.simps intro!: name_loop_agree)

lemma stages_agree:
  assumes "\<And>i. i < 256 \<Longrightarrow> a i = b i" and "i < 256"
  shows "edid_header a i = edid_header b i"
    and "edid_vendor a i = edid_vendor b i"
    and "edid_basic_display w h a i = edid_basic_display w h b i"
    and "edid_color_timings a i = edid_color_timings b i"
    and "edid_preferred_timing w h a i = edid_preferred_timing w h b i"
    and "edid_tail a i = edid_tail b i"
  using assms
  by (simp_all add: edid_header_def edid_vendor_def edid_basic_display_def
      edid_color_timings_def edid_preferred_timing_def edid_tail_def RtlZeroMemory_def Let_def)

lemma GenerateEdid_agree:
  assumes "GenerateEdid (Some a) w h = (sa, Some ea)"
    and "GenerateEdid (Some b) w h = (sb, Some eb)" and "i < 256"
  shows "ea i = eb i"
proof -
  have z: "\<And>i. i < 256 \<Longrightarrow> RtlZeroMemory a 0 EDID_SIZE i = RtlZeroMemory b 0 EDID_SIZE i"
    by (simp add: RtlZeroMemory_def EDID_SIZE_def)
  have "edid_checksum (edid_tail (edid_display_name (edid_preferred_timing w h
          (edid_color_timings (edid_basic_display w h (edid_vendor (edid_header
            (RtlZeroMemory a 0 EDID_SIZE)))))))) i
      = edid_checksum (edid_tail (edid_display_name (edid_preferred_timing w h
          (edid_color_timings (edid_basic_display w h (edid_vendor (edid_header
            (RtlZeroMemory b 0 EDID_SIZE)))))))) i"
    by (intro edid_checksum_agree stages_agree edid_display_name_agree z assms(3))
  with assms(1,2) show ?thesis
    by (simp add: GenerateEdid_def)
qed

lemma GenerateEdid_upper:
  assumes "GenerateEdid (Some a) w h = (sa, Some e)" and "128 \<le> i" and "i < 256"
  shows "e i = 0"
  using assms
  by (auto simp add: GenerateEdid_def edid_checksum_other edid_tail_def edid_display_name_def
      name_loop_other edid_preferred_timing_def edid_color_timings_def edid_basic_display_def
      edid_vendor_def edid_header_def RtlZeroMemory_def EDID_SIZE_def displayName_def Let_def
      simp del: name_loop.simps)


lemma GenerateEdid_succeeds:
  "\<exists>e. GenerateEdid (Some buf) w h = (STATUS_SUCCESS, Some e)"
  by (simp add: GenerateEdid_def)

lemma length_descriptor_block: "length (descriptor_block w h) = 128"
  using GenerateEdid_succeeds [of zero_buffer w h]
  by (auto simp add: descriptor_block_def bytes_of_def simp del: upt_rec_numeral)

lemma GenerateEdid_block:
  assumes "GenerateEdid (Some buf) w h = (st, Some e)"
  shows "bytes_of e 128 = descriptor_block w h"
    and "bytes_of e EDID_SIZE = descriptor_block w h @ replicate 128 0"
proof -
  from GenerateEdid_succeeds [of zero_buffer w h] obtain e0 where
    e0: "GenerateEdid (Some zero_buffer) w h = (STATUS_SUCCESS, Some e0)"
    by blast
  have "map e [0..<128] = map e0 [0..<128]"
    by (rule map_cong) (simp_all add: GenerateEdid_agree [OF assms e0] del: upt_rec_numeral)
  then show low: "bytes_of e 128 = descriptor_block w h"
    by (simp add: descriptor_block_def bytes_of_def e0 del: upt_rec_numeral)
  have "map e [128..<256] = map (\<lambda>i. 0) [128..<256]"
    by (rule map_cong) (simp_all add: GenerateEdid_upper [OF assms] del: upt_rec_numeral)
  then have high: "map e [128..<256] = replicate 128 0"
    by (simp add: map_replicate_const del: upt_rec_numeral)
  have "[0..<256] = [0..<128] @ [128..<256]"
    using upt_add_eq_append [of 0 128 128] by simp
  then have "bytes_of e 256 = bytes_of e 128 @ map e [128..<256]"
    by (simp add: bytes_of_def del: upt_rec_numeral)
  then show "bytes_of e EDID_SIZE = descriptor_block w h @ replicate 128 0"
    by (simp only: low high EDID_SIZE_def)
qed

lemma NT_SUCCESS_STATUS_SUCCESS: "NT_SUCCESS STATUS_SUCCESS"
  by (simp add: NT_SUCCESS_def STATUS_SUCCESS_def)

lemma CreateMonitor_submits:
  assumes "GenerateEdid (Some zero_buffer) 1920 1080 = (STATUS_SUCCESS, Some e)"
  shows "submitted_descriptions (snd (snd (fst (CreateMonitor host a s)))) = [bytes_of e EDID_SIZE]"
  by (simp add: CreateMonitor_def assms NT_SUCCESS_STATUS_SUCCESS InterlockedIncrement_def
      Let_def description_data_def EDID_SIZE_def)

text \<open>
  Claim C2, as amended. The encoder's output is a function of the width and the height
  alone: from any buffer, the first 128 bytes it leaves are the block
  \<open>descriptor_block w h\<close>, and the \<open>EDID_SIZE = 256\<close> bytes it has written are that block
  followed by 128 zero bytes. The descriptor given to the host at monitor creation is
  this whole 256-byte buffer for 1920 by 1080: the 128-byte block and 128 zero bytes
  after it.
\<close>

theorem descriptor_determined_and_submitted:
  "(\<exists>e. GenerateEdid (Some buf) w h = (STATUS_SUCCESS, Some e)
      \<and> bytes_of e 128 = descriptor_block w h
      \<and> bytes_of e EDID_SIZE = descriptor_block w h @ replicate 128 0)
   \<and> length (descriptor_block w h) = 128
   \<and> submitted_descriptions (snd (snd (fst (CreateMonitor host a s))))
       = [descriptor_block 1920 1080 @ replicate 128 0]"
proof (intro conjI)
  from GenerateEdid_succeeds [of buf w h] obtain e where
    e: "GenerateEdid (Some buf) w h = (STATUS_SUCCESS, Some e)"
    by blast
  show "\<exists>e. GenerateEdid (Some buf) w h = (STATUS_SUCCESS, Some e)
      \<and> bytes_of e 128 = descriptor_block w h
      \<and> bytes_of e EDID_SIZE = descriptor_block w h @ replicate 128 0"
    by (intro exI [of _ e] conjI e GenerateEdid_block [OF e])
  show "length (descriptor_block w h) = 128"
    by (rule length_descriptor_block)
  from GenerateEdid_succeeds [of zero_buffer 1920 1080] obtain e0 where
    e0: "GenerateEdid (Some zero_buffer) 1920 1080 = (STATUS_SUCCESS, Some e0)"
    by blast
  show "submitted_descriptions (snd (snd (fst (CreateMonitor host a s))))
       = [descriptor_block 1920 1080 @ replicate 128 0]"
    by (simp only: CreateMonitor_submits [OF e0] GenerateEdid_block(2) [OF e0])
qed

text \<open>
  Claim C2 says that the block given to the host is exactly the 128-byte block. The data
  \<open>CreateMonitor\<close> submits has \<open>DataSize = EDID_SIZE = 256\<close> bytes, so it is not that block.
\<close>

theorem submitted_block_not_128_bytes:
  "submitted_descriptions (snd (snd (fst (CreateMonitor
      \<lparr>IddCxMonitorCreate_status = STATUS_SUCCESS, MonitorObject = 1,
       IddCxMonitorSetCallbacks_status = STATUS_SUCCESS,
       IddCxMonitorArrival_status = STATUS_SUCCESS\<rparr> 0 (initial_state 0)))))
     \<noteq> [descriptor_block 1920 1080]"
proof -
  from GenerateEdid_succeeds [of zero_buffer 1920 1080] obtain e0 where
    e0: "GenerateEdid (Some zero_buffer) 1920 1080 = (STATUS_SUCCESS, Some e0)"
    by blast
  have "length (descriptor_block 1920 1080 @ replicate 128 0) \<noteq> length (descriptor_block 1920 1080)"
    by (simp add: length_descriptor_block)
  then have "descriptor_block 1920 1080 @ replicate 128 0 \<noteq> descriptor_block 1920 1080"
    by (rule contrapos_nn) (simp only:)
  then show ?thesis
    by (simp only: CreateMonitor_submits [OF e0] GenerateEdid_block(2) [OF e0] list.inject
        simp_thms not_False_eq_True)
qed


section \<open>The two mode callbacks\<close>

lemma default_modes_loop_nth:
  "default_modes_loop i n buf k =
     (if i \<le> k \<and> k < n
      then (buf k)\<lparr>Origin := IDDCX_MONITOR_MODE_ORIGIN_DRIVER,
             MonitorVideoSignalInfo :=
               fill_signal_info (g_SupportedModes ! k) (MonitorVideoSignalInfo (buf k))\<rparr>
      else buf k)"
proof (induction i n buf rule: default_modes_loop.induct)
  case (1 i n buf)
  show ?case
  proof (cases "i < n")
    case True
    have "default_modes_loop i n buf k =
        default_modes_loop (i + 1) n
          (buf(i := (buf i)\<lparr>Origin := IDDCX_MONITOR_MODE_ORIGIN_DRIVER,
             MonitorVideoSignalInfo :=
               fill_signal_info (g_SupportedModes ! i) (MonitorVideoSignalInfo (buf i))\<rparr>)) k"
      by (subst default_modes_loop.simps) (simp add: True del: default_modes_loop.simps)
    also note 1 [OF True]
    finally show ?thesis
      using True by (auto simp del: default_modes_loop.simps target_modes_loop.simps)
  next
    case False
    then show ?thesis
      by (subst default_modes_loop.simps) (auto simp del: default_modes_loop.simps)
  qed
qed

lemma target_modes_loop_nth:
  "target_modes_loop i n buf k =
     (if i \<le> k \<and> k < n
      then (buf k)\<lparr>TargetVideoSignalInfo :=
               fill_signal_info (g_SupportedModes ! k) (TargetVideoSignalInfo (buf k))\<rparr>
      else buf k)"
proof (induction i n buf rule: target_modes_loop.induct)
  case (1 i n buf)
  show ?case
  proof (cases "i < n")
    case True
    have "target_modes_loop i n buf k =
        target_modes_loop (i + 1) n
          (buf(i := (buf i)\<lparr>TargetVideoSignalInfo :=
               fill_signal_info (g_SupportedModes ! i) (TargetVideoSignalInfo (buf i))\<rparr>)) k"
      by (subst target_modes_loop.simps) (simp add: True del: target_modes_loop.simps)
    also note 1 [OF True]
    finally show ?thesis
      using True by (auto simp del: default_modes_loop.simps target_modes_loop.simps)
  next
    case False
    then show ?thesis
      by (subst target_modes_loop.simps) (auto simp del: target_modes_loop.simps)
  qed
qed

lemma fill_signal_info_independent: "fill_signal_info m a = fill_signal_info m b"
  by (simp add: fill_signal_info_def)

lemma SUPPORTED_MODE_COUNT_5: "SUPPORTED_MODE_COUNT = 5"
  by (simp add: SUPPORTED_MODE_COUNT_def g_SupportedModes_def)

lemma less_5_cases: "i < (5 :: nat) \<Longrightarrow> i = 0 \<or> i = 1 \<or> i = 2 \<or> i = 3 \<or> i = 4"
  by arith

lemma fill_signal_info_fields:
  fixes info :: VIDEO_SIGNAL_INFO
  assumes "i < SUPPORTED_MODE_COUNT"
  defines "m \<equiv> g_SupportedModes ! i"
  defines "v \<equiv> fill_signal_info m info"
  shows "cx (TotalSize v) = Width m \<and> cy (TotalSize v) = Height m
     \<and> cx (ActiveSize v) = Width m \<and> cy (ActiveSize v) = Height m
     \<and> Numerator (VSyncFreq v) = RefreshRate m \<and> Denominator (VSyncFreq v) = 1
     \<and> unat (Numerator (HSyncFreq v)) = unat (RefreshRate m) * unat (Height m)
     \<and> Denominator (HSyncFreq v) = 1
     \<and> unat (PixelRate v) = unat (Width m) * unat (Height m) * unat (RefreshRate m)
     \<and> ScanLineOrdering v = D3DDDI_VSSLO_PROGRESSIVE"
proof -
  from assms(1) have "i = 0 \<or> i = 1 \<or> i = 2 \<or> i = 3 \<or> i = 4"
    by (intro less_5_cases) (simp add: SUPPORTED_MODE_COUNT_5)
  then show ?thesis
    unfolding m_def v_def
    by (elim disjE) (simp_all add: fill_signal_info_def g_SupportedModes_def)
qed


lemma unat_mode_count:
  "unat (of_nat (min (unat (n :: 32 word)) SUPPORTED_MODE_COUNT) :: 32 word)
     = min (unat n) SUPPORTED_MODE_COUNT"
proof -
  have "min (unat n) SUPPORTED_MODE_COUNT \<le> 5"
    by (simp add: SUPPORTED_MODE_COUNT_5)
  then have "min (unat n) SUPPORTED_MODE_COUNT < 2 ^ LENGTH(32)"
    by simp
  then show ?thesis
    by (simp only: unat_of_nat mod_less)
qed

lemma mode_counts:
  fixes n :: UINT
  shows "unat (DefaultMonitorModeBufferOutputCount
            (snd (ExpandScreenEvtMonitorGetDefaultModes n pDefaultMonitorModes)))
       = min (unat n) SUPPORTED_MODE_COUNT"
    and "unat (TargetModeBufferOutputCount
            (snd (ExpandScreenEvtMonitorQueryTargetModes n pTargetModes)))
       = min (unat n) SUPPORTED_MODE_COUNT"
    and "min (unat n) SUPPORTED_MODE_COUNT \<le> length g_SupportedModes"
  by (simp_all add: ExpandScreenEvtMonitorGetDefaultModes_def
      ExpandScreenEvtMonitorQueryTargetModes_def Let_def
      unat_mode_count [unfolded SUPPORTED_MODE_COUNT_5] SUPPORTED_MODE_COUNT_5
      g_SupportedModes_def del: default_modes_loop.simps target_modes_loop.simps)

lemma mode_entries:
  fixes n :: UINT
  assumes "i < min (unat n) SUPPORTED_MODE_COUNT"
  shows "MonitorVideoSignalInfo
          (DefaultMonitorModes (snd (ExpandScreenEvtMonitorGetDefaultModes n pDefaultMonitorModes)) i)
       = TargetVideoSignalInfo
          (TargetModes (snd (ExpandScreenEvtMonitorQueryTargetModes n pTargetModes)) i)
     \<and> (let m = g_SupportedModes ! i;
             v = TargetVideoSignalInfo
                   (TargetModes (snd (ExpandScreenEvtMonitorQueryTargetModes n pTargetModes)) i)
         in cx (TotalSize v) = Width m \<and> cy (TotalSize v) = Height m
          \<and> cx (ActiveSize v) = Width m \<and> cy (ActiveSize v) = Height m
          \<and> Numerator (VSyncFreq v) = RefreshRate m \<and> Denominator (VSyncFreq v) = 1
          \<and> unat (Numerator (HSyncFreq v)) = unat (RefreshRate m) * unat (Height m)
          \<and> Denominator (HSyncFreq v) = 1
          \<and> unat (PixelRate v) = unat (Width m) * unat (Height m) * unat (RefreshRate m)
          \<and> ScanLineOrdering v = D3DDDI_VSSLO_PROGRESSIVE)"
proof -
  have d: "MonitorVideoSignalInfo
          (DefaultMonitorModes (snd (ExpandScreenEvtMonitorGetDefaultModes n pDefaultMonitorModes)) i)
      = fill_signal_info (g_SupportedModes ! i) (MonitorVideoSignalInfo (pDefaultMonitorModes i))"
    using assms
    by (simp add: ExpandScreenEvtMonitorGetDefaultModes_def Let_def default_modes_loop_nth
        del: default_modes_loop.simps)
  have t: "TargetVideoSignalInfo
          (TargetModes (snd (ExpandScreenEvtMonitorQueryTargetModes n pTargetModes)) i)
      = fill_signal_info (g_SupportedModes ! i) (TargetVideoSignalInfo (pTargetModes i))"
    using assms
    by (simp add: ExpandScreenEvtMonitorQueryTargetModes_def Let_def target_modes_loop_nth
        del: target_modes_loop.simps)
  from assms have i: "i < SUPPORTED_MODE_COUNT"
    by simp
  note f = fill_signal_info_fields [OF i, of "TargetVideoSignalInfo (pTargetModes i)"]
  note e = fill_signal_info_independent [of "g_SupportedModes ! i"
      "MonitorVideoSignalInfo (pDefaultMonitorModes i)" "TargetVideoSignalInfo (pTargetModes i)"]
  show ?thesis
    unfolding Let_def d t e
    using f by (simp only: simp_thms)
qed

text \<open>
  Claim C3. For every requested count \<open>n\<close>, the default-modes and the target-modes
  callback both report \<open>min n (catalogue size)\<close> entries, never more than the catalogue
  holds, and entry \<open>i\<close> of either is made from catalogue entry \<open>i\<close>, with the same signal
  information in both: the sizes are the width and height, the vertical frequency is the
  refresh rate over 1, the horizontal frequency is refresh rate times height over 1, the
  pixel rate is width times height times refresh rate (all exact, nothing wraps for the
  catalogue), and the scan is progressive.
\<close>

theorem mode_callbacks_agree:
  fixes n :: UINT
  shows "unat (DefaultMonitorModeBufferOutputCount
            (snd (ExpandScreenEvtMonitorGetDefaultModes n pDefaultMonitorModes)))
       = min (unat n) SUPPORTED_MODE_COUNT
     \<and> unat (TargetModeBufferOutputCount
            (snd (ExpandScreenEvtMonitorQueryTargetModes n pTargetModes)))
       = min (unat n) SUPPORTED_MODE_COUNT
     \<and> min (unat n) SUPPORTED_MODE_COUNT \<le> length g_SupportedModes
     \<and> (\<forall>i. i < min (unat n) SUPPORTED_MODE_COUNT \<longrightarrow>
          MonitorVideoSignalInfo
            (DefaultMonitorModes (snd (ExpandScreenEvtMonitorGetDefaultModes n pDefaultMonitorModes)) i)
          = TargetVideoSignalInfo
              (TargetModes (snd (ExpandScreenEvtMonitorQueryTargetModes n pTargetModes)) i)
          \<and> (let m = g_SupportedModes ! i;
                  v = TargetVideoSignalInfo
                        (TargetModes (snd (ExpandScreenEvtMonitorQueryTargetModes n pTargetModes)) i)
              in cx (TotalSize v) = Width m \<and> cy (TotalSize v) = Height m
               \<and> cx (ActiveSize v) = Width m \<and> cy (ActiveSize v) = Height m
               \<and> Numerator (VSyncFreq v) = RefreshRate m \<and> Denominator (VSyncFreq v) = 1
               \<and> unat (Numerator (HSyncFreq v)) = unat (RefreshRate m) * unat (Height m)
               \<and> Denominator (HSyncFreq v) = 1
               \<and> unat (PixelRate v) = unat (Width m) * unat (Height m) * unat (RefreshRate m)
               \<and> ScanLineOrdering v = D3DDDI_VSSLO_PROGRESSIVE))"
  by (intro conjI allI impI mode_counts mode_entries)

theorem mode_callbacks_agree_witness:
  "2 < min (unat (3 :: UINT)) SUPPORTED_MODE_COUNT
   \<and> unat (DefaultMonitorModeBufferOutputCount (snd (ExpandScreenEvtMonitorGetDefaultModes 3 blank_monitor_modes))) = 3
   \<and> unat (TargetModeBufferOutputCount (snd (ExpandScreenEvtMonitorQueryTargetModes 3 blank_target_modes))) = 3
   \<and> MonitorVideoSignalInfo (DefaultMonitorModes (snd (ExpandScreenEvtMonitorGetDefaultModes 3 blank_monitor_modes)) 2)
       = TargetVideoSignalInfo (TargetModes (snd (ExpandScreenEvtMonitorQueryTargetModes 3 blank_target_modes)) 2)
   \<and> unat (PixelRate (TargetVideoSignalInfo (TargetModes (snd (ExpandScreenEvtMonitorQueryTargetModes 3 blank_target_modes)) 2)))
       = 245760000"
proof -
  have h: "2 < min (unat (3 :: UINT)) SUPPORTED_MODE_COUNT"
    by (simp add: SUPPORTED_MODE_COUNT_5)
  have m: "g_SupportedModes ! 2 = \<lparr>Width = 2560, Height = 1600, RefreshRate = 60\<rparr>"
    by (simp add: g_SupportedModes_def)
  from mode_callbacks_agree [of 3 blank_monitor_modes blank_target_modes] h m
  show ?thesis
    by (simp add: Let_def SUPPORTED_MODE_COUNT_5)
qed


section \<open>The frame step\<close>

lemma ProcessSwapChainFrame_releases:
  "length (release_calls (snd (ProcessSwapChainFrame host ctx)))
     = (if NT_SUCCESS (first_status host) then 1 else 0)"
  by (simp add: ProcessSwapChainFrame_def Let_def)

text \<open>
  Claim C9 says that a step whose first call does not succeed, error or pending, issues
  no release. The step tests \<open>NT_SUCCESS\<close> first and looks for \<open>STATUS_PENDING\<close> only
  inside the failure branch; \<open>STATUS_PENDING\<close> is 0x103, not negative, so it passes
  \<open>NT_SUCCESS\<close> and the step goes on to the release call. Evaluated for a host that
  answers \<open>STATUS_PENDING\<close> and leaves the output arguments as the step zeroed them: the
  release call is made, with a null surface.
\<close>

theorem pending_acquire_is_released:
  "STATUS_PENDING \<noteq> STATUS_SUCCESS
   \<and> ProcessSwapChainFrame
       \<lparr>first_status = STATUS_PENDING, first_DirtyRectCount = 0, first_pSurface = None,
        second_status = STATUS_SUCCESS\<rparr>
       \<lparr>sc_SwapChain = 1, sc_TerminateThread = False\<rparr>
     = (STATUS_SUCCESS,
        [IddCxSwapChainReleaseAndAcquireBuffer 1 None True,
         IddCxSwapChainReleaseAndAcquireBuffer 1 None False])
   \<and> length (release_calls (snd (ProcessSwapChainFrame
       \<lparr>first_status = STATUS_PENDING, first_DirtyRectCount = 0, first_pSurface = None,
        second_status = STATUS_SUCCESS\<rparr>
       \<lparr>sc_SwapChain = 1, sc_TerminateThread = False\<rparr>))) = 1"
  by (simp add: ProcessSwapChainFrame_def Let_def NT_SUCCESS_def STATUS_PENDING_def
      STATUS_SUCCESS_def)

section \<open>Monitor creation and runs\<close>

lemma CreateMonitor_state:
  "g_MonitorIdCounter (snd (CreateMonitor host a s)) = g_MonitorIdCounter s + 1"
  "dc_MonitorCount (snd (CreateMonitor host a s)) = dc_MonitorCount s"
  "dc_Adapter (snd (CreateMonitor host a s)) = dc_Adapter s"
  by (simp_all add: CreateMonitor_def GenerateEdid_def NT_SUCCESS_STATUS_SUCCESS
      InterlockedIncrement_def Let_def)

lemma allocated_ids_append:
  "allocated_ids (xs @ ys) = allocated_ids xs @ allocated_ids ys"
  by (induction xs rule: allocated_ids.induct) simp_all

lemma output_records_append:
  "output_records (xs @ ys) = output_records xs @ output_records ys"
  by (induction xs rule: output_records.induct) (simp_all split: option.splits)

lemma returned_ids_append:
  "returned_ids (xs @ ys) = returned_ids xs @ returned_ids ys"
  by (simp add: returned_ids_def output_records_append)

lemma output_records_calls: "output_records (map Call calls) = []"
  by (induction calls) simp_all

lemma CreateMonitor_ids:
  "allocated_ids (map Call (snd (snd (fst (CreateMonitor host a s))))) = [g_MonitorIdCounter s + 1]"
  by (simp add: CreateMonitor_def GenerateEdid_def NT_SUCCESS_STATUS_SUCCESS
      InterlockedIncrement_def Let_def)

lemma CreateMonitor_context:
  "NT_SUCCESS (fst (fst (CreateMonitor host a s))) \<Longrightarrow>
     map_option mc_MonitorId (monitor_contexts (snd (CreateMonitor host a s)) (MonitorObject host))
       = Some (g_MonitorIdCounter s + 1)"
  by (simp add: CreateMonitor_def GenerateEdid_def NT_SUCCESS_STATUS_SUCCESS
      InterlockedIncrement_def Let_def split: if_splits)


lemma allocated_ids_calls_completion [simp]:
  "allocated_ids [Completion r] = []" "allocated_ids [Status st] = []"
  by simp_all

lemma returned_ids_simps:
  "returned_ids (map Call calls @ obs) = returned_ids obs"
  "returned_ids [Status st] = []"
  "returned_ids [] = []"
  by (simp_all add: returned_ids_def output_records_append output_records_calls)

lemma allocated_ids_frame:
  "allocated_ids (map Call (snd (ProcessSwapChainFrame host ctx))) = []"
  by (simp add: ProcessSwapChainFrame_def Let_def)

lemma ioctl_codes_distinct:
  "IOCTL_EXPANDSCREEN_CREATE_MONITOR \<noteq> IOCTL_EXPANDSCREEN_DESTROY_MONITOR"
  "IOCTL_EXPANDSCREEN_CREATE_MONITOR \<noteq> IOCTL_EXPANDSCREEN_GET_ADAPTER_INFO"
  "IOCTL_EXPANDSCREEN_DESTROY_MONITOR \<noteq> IOCTL_EXPANDSCREEN_GET_ADAPTER_INFO"
  by (simp_all add: IOCTL_EXPANDSCREEN_CREATE_MONITOR_def IOCTL_EXPANDSCREEN_DESTROY_MONITOR_def
      IOCTL_EXPANDSCREEN_GET_ADAPTER_INFO_def CTL_CODE_def FILE_DEVICE_VIDEO_def
      METHOD_BUFFERED_def FILE_ANY_ACCESS_def FILE_READ_ACCESS_def)

lemma ioctl_create_succeeds:
  assumes "NT_SUCCESS (RetrieveInputBuffer_status host)"
    and "NT_SUCCESS (RetrieveOutputBuffer_status host)"
    and "NT_SUCCESS (fst (fst (CreateMonitor (monitor_answers host) (dc_Adapter s) s)))"
  shows "ExpandScreenEvtIoDeviceControl host IOCTL_EXPANDSCREEN_CREATE_MONITOR s =
     ((\<lparr>completion_status = STATUS_SUCCESS, bytesReturned = 8,
         create_output =
           Some \<lparr>cmo_MonitorId = g_MonitorIdCounter s + 2, cmo_Status = STATUS_SUCCESS\<rparr>,
         info_output = None\<rparr>,
       snd (snd (fst (CreateMonitor (monitor_answers host) (dc_Adapter s) s)))),
      (snd (CreateMonitor (monitor_answers host) (dc_Adapter s) s))
        \<lparr>dc_MonitorCount := dc_MonitorCount s + 1,
         g_MonitorIdCounter := g_MonitorIdCounter s + 2\<rparr>)"
  using assms
  by (simp add: ExpandScreenEvtIoDeviceControl_def case_prod_beta Let_def
      InterlockedIncrement_def CreateMonitor_state add.commute)

lemma ioctl_create_fails:
  assumes "NT_SUCCESS (RetrieveInputBuffer_status host)"
    and "NT_SUCCESS (RetrieveOutputBuffer_status host)"
    and "\<not> NT_SUCCESS (fst (fst (CreateMonitor (monitor_answers host) (dc_Adapter s) s)))"
  shows "ExpandScreenEvtIoDeviceControl host IOCTL_EXPANDSCREEN_CREATE_MONITOR s =
     ((\<lparr>completion_status = STATUS_SUCCESS, bytesReturned = 0,
         create_output =
           Some \<lparr>cmo_MonitorId = 0,
                 cmo_Status = fst (fst (CreateMonitor (monitor_answers host) (dc_Adapter s) s))\<rparr>,
         info_output = None\<rparr>,
       snd (snd (fst (CreateMonitor (monitor_answers host) (dc_Adapter s) s)))),
      snd (CreateMonitor (monitor_answers host) (dc_Adapter s) s))"
  using assms
  by (simp add: ExpandScreenEvtIoDeviceControl_def case_prod_beta Let_def)

lemma ioctl_without_creation:
  assumes "code \<noteq> IOCTL_EXPANDSCREEN_CREATE_MONITOR
     \<or> \<not> NT_SUCCESS (RetrieveInputBuffer_status host)
     \<or> \<not> NT_SUCCESS (RetrieveOutputBuffer_status host)"
  shows "snd (ExpandScreenEvtIoDeviceControl host code s) = s"
    and "snd (fst (ExpandScreenEvtIoDeviceControl host code s)) = []"
    and "create_output (fst (fst (ExpandScreenEvtIoDeviceControl host code s))) = None"
  using assms
  by (auto simp add: ExpandScreenEvtIoDeviceControl_def Let_def)

lemma output_records_completion:
  "output_records [Completion r] = (case create_output r of None \<Rightarrow> [] | Some out \<Rightarrow> [out])"
  by (simp split: option.splits)

lemma step_request:
  "step (IoDeviceControl host code) s =
     (map Call (snd (fst (ExpandScreenEvtIoDeviceControl host code s)))
        @ [Completion (fst (fst (ExpandScreenEvtIoDeviceControl host code s)))],
      snd (ExpandScreenEvtIoDeviceControl host code s))"
  by (simp add: case_prod_beta)

lemma step_effect:
  "(allocated_ids (fst (step e s)) = []
      \<and> g_MonitorIdCounter (snd (step e s)) = g_MonitorIdCounter s
      \<and> returned_ids (fst (step e s)) = [])
   \<or> (allocated_ids (fst (step e s)) = [g_MonitorIdCounter s + 1]
      \<and> g_MonitorIdCounter (snd (step e s)) = g_MonitorIdCounter s + 1
      \<and> returned_ids (fst (step e s)) = [])
   \<or> (allocated_ids (fst (step e s)) = [g_MonitorIdCounter s + 1]
      \<and> g_MonitorIdCounter (snd (step e s)) = g_MonitorIdCounter s + 2
      \<and> returned_ids (fst (step e s)) = [g_MonitorIdCounter s + 2])"
proof (cases e)
  case (AdapterInitFinished host a st)
  then show ?thesis
    by (simp add: ExpandScreenEvtAdapterInitFinished_def case_prod_beta Let_def
        CreateMonitor_state CreateMonitor_ids allocated_ids_append returned_ids_simps
        InterlockedIncrement_def)
next
  case e: (IoDeviceControl host code)
  let ?cm = "CreateMonitor (monitor_answers host) (dc_Adapter s) s"
  consider
    (none) "code \<noteq> IOCTL_EXPANDSCREEN_CREATE_MONITOR
       \<or> \<not> NT_SUCCESS (RetrieveInputBuffer_status host)
       \<or> \<not> NT_SUCCESS (RetrieveOutputBuffer_status host)"
    | (fails) "code = IOCTL_EXPANDSCREEN_CREATE_MONITOR"
        "NT_SUCCESS (RetrieveInputBuffer_status host)"
        "NT_SUCCESS (RetrieveOutputBuffer_status host)" "\<not> NT_SUCCESS (fst (fst ?cm))"
    | (succeeds) "code = IOCTL_EXPANDSCREEN_CREATE_MONITOR"
        "NT_SUCCESS (RetrieveInputBuffer_status host)"
        "NT_SUCCESS (RetrieveOutputBuffer_status host)" "NT_SUCCESS (fst (fst ?cm))"
    by blast
  then show ?thesis
  proof cases
    case none
    show ?thesis
      unfolding e step_request
      by (simp add: ioctl_without_creation [OF none] returned_ids_def output_records_completion)
  next
    case fails
    show ?thesis
      unfolding e step_request fails(1) ioctl_create_fails [OF fails(2-4)]
      by (simp add: allocated_ids_append CreateMonitor_ids CreateMonitor_state
          returned_ids_def output_records_append output_records_calls fails(4))
  next
    case succeeds
    show ?thesis
      unfolding e step_request succeeds(1) ioctl_create_succeeds [OF succeeds(2-4)]
      by (simp add: allocated_ids_append CreateMonitor_ids
          returned_ids_def output_records_append output_records_calls NT_SUCCESS_STATUS_SUCCESS)
  qed
next
  case (SwapChainFrame host ctx)
  then show ?thesis
    by (simp add: case_prod_beta allocated_ids_append allocated_ids_frame returned_ids_simps)
qed (simp_all add: returned_ids_simps case_prod_beta Let_def split: option.splits)


lemma run_Cons:
  "fst (run (e # es) s) = fst (step e s) @ fst (run es (snd (step e s)))"
  "snd (run (e # es) s) = snd (run es (snd (step e s)))"
  by (simp_all add: case_prod_beta)

lemma unat_plus_1: "unat (c :: 32 word) + 1 < 2 ^ 32 \<Longrightarrow> unat (c + 1) = unat c + 1"
  by (simp add: unat_word_ariths)

lemma unat_plus_2: "unat (c :: 32 word) + 2 < 2 ^ 32 \<Longrightarrow> unat (c + 2) = unat c + 2"
  by (simp add: unat_word_ariths)

lemma step_effect_unat:
  assumes "unat (g_MonitorIdCounter s) + 2 < 2 ^ 32"
  defines "n \<equiv> unat (g_MonitorIdCounter s)"
  shows "(map unat (allocated_ids (fst (step e s))) = []
      \<and> unat (g_MonitorIdCounter (snd (step e s))) = n
      \<and> map unat (returned_ids (fst (step e s))) = [])
   \<or> (map unat (allocated_ids (fst (step e s))) = [n + 1]
      \<and> unat (g_MonitorIdCounter (snd (step e s))) = n + 1
      \<and> map unat (returned_ids (fst (step e s))) = [])
   \<or> (map unat (allocated_ids (fst (step e s))) = [n + 1]
      \<and> unat (g_MonitorIdCounter (snd (step e s))) = n + 2
      \<and> map unat (returned_ids (fst (step e s))) = [n + 2])"
proof -
  from assms(1) have 1: "unat (g_MonitorIdCounter s + 1) = n + 1"
    and 2: "unat (g_MonitorIdCounter s + 2) = n + 2"
    by (simp_all add: unat_plus_1 unat_plus_2 n_def)
  from step_effect [of e s] show ?thesis
    by (elim disjE conjE) (simp_all add: 1 2 n_def)
qed

lemma extend_invariant:
  fixes n n1 nF :: nat
  assumes "(A1 = [] \<and> n1 = n \<and> R1 = [])
      \<or> (A1 = [n + 1] \<and> n1 = n + 1 \<and> R1 = [])
      \<or> (A1 = [n + 1] \<and> n1 = n + 2 \<and> R1 = [n + 2])"
    and le: "n1 \<le> nF"
    and bounds: "\<forall>x \<in> set A2 \<union> set R2. n1 < x \<and> x \<le> nF"
    and sorted: "sorted_wrt (<) A2"
    and disjoint: "set R2 \<inter> set A2 = {}"
  shows "n \<le> nF
     \<and> (\<forall>x \<in> set (A1 @ A2) \<union> set (R1 @ R2). n < x \<and> x \<le> nF)
     \<and> sorted_wrt (<) (A1 @ A2)
     \<and> set (R1 @ R2) \<inter> set (A1 @ A2) = {}"
proof -
  from bounds have b: "\<And>x. x \<in> set A2 \<Longrightarrow> n1 < x \<and> x \<le> nF"
    "\<And>x. x \<in> set R2 \<Longrightarrow> n1 < x \<and> x \<le> nF"
    by auto
  from assms(1) consider (idle) "A1 = []" "n1 = n" "R1 = []"
    | (one) "A1 = [n + 1]" "n1 = n + 1" "R1 = []"
    | (two) "A1 = [n + 1]" "n1 = n + 2" "R1 = [n + 2]"
    by blast
  then show ?thesis
  proof cases
    case idle
    with le bounds sorted disjoint show ?thesis
      by simp
  next
    case one
    have "n + 1 \<notin> set R2"
      using b(2) [of "n + 1"] one by auto
    with one le b sorted disjoint show ?thesis
      by (auto simp add: sorted_wrt_append dest: b)
  next
    case two
    have "n + 1 \<notin> set R2" "n + 2 \<notin> set A2" "n + 2 \<notin> set R2"
      using b(2) [of "n + 1"] b(1) [of "n + 2"] b(2) [of "n + 2"] two by auto
    with two le b sorted disjoint show ?thesis
      by (auto simp add: sorted_wrt_append dest: b)
  qed
qed


lemma run_invariant:
  assumes "unat (g_MonitorIdCounter s) + 2 * length evs < 2 ^ 32"
  shows "unat (g_MonitorIdCounter s) \<le> unat (g_MonitorIdCounter (snd (run evs s)))
     \<and> (\<forall>x \<in> set (map unat (allocated_ids (fst (run evs s))))
              \<union> set (map unat (returned_ids (fst (run evs s)))).
          unat (g_MonitorIdCounter s) < x \<and> x \<le> unat (g_MonitorIdCounter (snd (run evs s))))
     \<and> sorted_wrt (<) (map unat (allocated_ids (fst (run evs s))))
     \<and> set (map unat (returned_ids (fst (run evs s))))
          \<inter> set (map unat (allocated_ids (fst (run evs s)))) = {}"
  using assms
proof (induction evs arbitrary: s)
  case Nil
  show ?case
    by (simp add: returned_ids_simps)
next
  case (Cons e es)
  let ?n = "unat (g_MonitorIdCounter s)"
  let ?s1 = "snd (step e s)"
  let ?n1 = "unat (g_MonitorIdCounter ?s1)"
  let ?A1 = "map unat (allocated_ids (fst (step e s)))"
  let ?R1 = "map unat (returned_ids (fst (step e s)))"
  let ?A2 = "map unat (allocated_ids (fst (run es ?s1)))"
  let ?R2 = "map unat (returned_ids (fst (run es ?s1)))"
  let ?nF = "unat (g_MonitorIdCounter (snd (run es ?s1)))"
  from Cons.prems have small: "?n + 2 < 2 ^ 32" and rest: "?n + 2 + 2 * length es < 2 ^ 32"
    by simp_all
  have A: "map unat (allocated_ids (fst (run (e # es) s))) = ?A1 @ ?A2"
    and R: "map unat (returned_ids (fst (run (e # es) s))) = ?R1 @ ?R2"
    and F: "unat (g_MonitorIdCounter (snd (run (e # es) s))) = ?nF"
    by (simp_all only: run_Cons allocated_ids_append returned_ids_append map_append)
  note eff = step_effect_unat [OF small, of e]
  from eff have "?n1 \<le> ?n + 2"
    by (elim disjE conjE) simp_all
  with rest have "?n1 + 2 * length es < 2 ^ 32"
    by simp
  note IH = Cons.IH [OF this]
  show ?case
    unfolding A R F
    by (rule extend_invariant [OF eff IH [THEN conjunct1] IH [THEN conjunct2, THEN conjunct1]
          IH [THEN conjunct2, THEN conjunct2, THEN conjunct1]
          IH [THEN conjunct2, THEN conjunct2, THEN conjunct2]])
qed


lemma not_NT_SUCCESS_STATUS_UNSUCCESSFUL: "\<not> NT_SUCCESS STATUS_UNSUCCESSFUL"
  by (simp add: NT_SUCCESS_def STATUS_UNSUCCESSFUL_def)

lemma CreateMonitor_accepts:
  "fst (fst (CreateMonitor (host_accepts h) a s)) = STATUS_SUCCESS"
  "snd (CreateMonitor (host_accepts h) a s) =
     s\<lparr>g_MonitorIdCounter := g_MonitorIdCounter s + 1,
       monitor_contexts := (monitor_contexts s)(h \<mapsto>
         \<lparr>mc_Monitor = h, mc_Adapter = a, mc_MonitorId = g_MonitorIdCounter s + 1,
          mc_IsActive = False, mc_SwapChain = None\<rparr>)\<rparr>"
  by (simp_all add: CreateMonitor_def GenerateEdid_def NT_SUCCESS_STATUS_SUCCESS
      InterlockedIncrement_def Let_def host_accepts_def)

lemma CreateMonitor_refuses:
  "fst (fst (CreateMonitor host_refuses a s)) = STATUS_UNSUCCESSFUL"
  "snd (CreateMonitor host_refuses a s) = s\<lparr>g_MonitorIdCounter := g_MonitorIdCounter s + 1\<rparr>"
  by (simp_all add: CreateMonitor_def GenerateEdid_def NT_SUCCESS_STATUS_SUCCESS
      not_NT_SUCCESS_STATUS_UNSUCCESSFUL InterlockedIncrement_def Let_def host_refuses_def)

lemma step_refused:
  "snd (step (create_request host_refuses) s) = s\<lparr>g_MonitorIdCounter := g_MonitorIdCounter s + 1\<rparr>"
  "allocated_ids (fst (step (create_request host_refuses) s)) = [g_MonitorIdCounter s + 1]"
  "output_records (fst (step (create_request host_refuses) s))
     = [\<lparr>cmo_MonitorId = 0, cmo_Status = STATUS_UNSUCCESSFUL\<rparr>]"
  unfolding create_request_def step_request
  by (simp_all add: create_host_def ioctl_create_fails NT_SUCCESS_STATUS_SUCCESS CreateMonitor_refuses
      not_NT_SUCCESS_STATUS_UNSUCCESSFUL allocated_ids_append CreateMonitor_ids
      output_records_append output_records_calls)

lemma step_accepted:
  "snd (step (create_request (host_accepts h)) s) =
     s\<lparr>g_MonitorIdCounter := g_MonitorIdCounter s + 2,
       dc_MonitorCount := dc_MonitorCount s + 1,
       monitor_contexts := (monitor_contexts s)(h \<mapsto>
         \<lparr>mc_Monitor = h, mc_Adapter = dc_Adapter s, mc_MonitorId = g_MonitorIdCounter s + 1,
          mc_IsActive = False, mc_SwapChain = None\<rparr>)\<rparr>"
  "allocated_ids (fst (step (create_request (host_accepts h)) s)) = [g_MonitorIdCounter s + 1]"
  "output_records (fst (step (create_request (host_accepts h)) s))
     = [\<lparr>cmo_MonitorId = g_MonitorIdCounter s + 2, cmo_Status = STATUS_SUCCESS\<rparr>]"
  unfolding create_request_def step_request
  by (simp_all add: create_host_def ioctl_create_succeeds NT_SUCCESS_STATUS_SUCCESS CreateMonitor_accepts
      allocated_ids_append CreateMonitor_ids output_records_append output_records_calls)

lemma step_init_accepted:
  "snd (step (AdapterInitFinished (host_accepts h) a STATUS_SUCCESS) s) =
     s\<lparr>g_MonitorIdCounter := g_MonitorIdCounter s + 1,
       dc_MonitorCount := dc_MonitorCount s + 1,
       monitor_contexts := (monitor_contexts s)(h \<mapsto>
         \<lparr>mc_Monitor = h, mc_Adapter = a, mc_MonitorId = g_MonitorIdCounter s + 1,
          mc_IsActive = False, mc_SwapChain = None\<rparr>)\<rparr>"
  "allocated_ids (fst (step (AdapterInitFinished (host_accepts h) a STATUS_SUCCESS) s))
     = [g_MonitorIdCounter s + 1]"
  "output_records (fst (step (AdapterInitFinished (host_accepts h) a STATUS_SUCCESS) s)) = []"
  by (simp_all add: ExpandScreenEvtAdapterInitFinished_def case_prod_beta Let_def
      NT_SUCCESS_STATUS_SUCCESS CreateMonitor_accepts InterlockedIncrement_def
      allocated_ids_append CreateMonitor_ids output_records_append output_records_calls)

lemma step_destroy:
  "snd (step destroy_request s) = s"
  "allocated_ids (fst (step destroy_request s)) = []"
  "output_records (fst (step destroy_request s)) = []"
  unfolding destroy_request_def step_request
  by (simp_all add: ioctl_without_creation ioctl_codes_distinct [symmetric]
      output_records_completion)

lemma run_append:
  "fst (run (xs @ ys) s) = fst (run xs s) @ fst (run ys (snd (run xs s)))"
  "snd (run (xs @ ys) s) = snd (run ys (snd (run xs s)))"
  by (induction xs arbitrary: s) (simp_all add: run_Cons del: run.simps(2))

lemma run_refused:
  "snd (run (replicate n (create_request host_refuses)) s)
     = s\<lparr>g_MonitorIdCounter := g_MonitorIdCounter s + of_nat n\<rparr>"
proof (induction n arbitrary: s)
  case 0
  show ?case by simp
next
  case (Suc n)
  show ?case
    by (simp add: run_Cons step_refused Suc add.assoc del: run.simps(2))
qed

lemma run_refused_records:
  "set (output_records (fst (run (replicate n (create_request host_refuses)) s)))
     \<subseteq> {\<lparr>cmo_MonitorId = 0, cmo_Status = STATUS_UNSUCCESSFUL\<rparr>}"
  by (induction n arbitrary: s)
    (simp_all add: run_Cons output_records_append step_refused del: run.simps(2))


lemma sorted_wrt_unat:
  "sorted_wrt (<) (map unat (xs :: 32 word list)) = sorted_wrt (<) xs"
  by (simp add: sorted_wrt_map flip: word_less_nat_alt)

lemma strictly_sorted_distinct:
  "sorted_wrt (<) (xs :: nat list) \<Longrightarrow> distinct xs"
  by (induction xs) auto

text \<open>
  Claim C6, as amended. As long as the 32-bit counter does not wrap, which holds for a run
  of \<open>n\<close> events from a counter value \<open>c\<close> with \<open>c + 2 * n < 2 ^ 32\<close>, the monitor ids
  allocated in the run, in order, are strictly increasing, hence no value is allocated
  twice, and each is above the value the counter had when the run began, whatever the
  events are, destroy requests included. Every allocation is the value of the one counter
  \<open>g_MonitorIdCounter\<close> just after it has been incremented.
\<close>

theorem monitor_ids_increase:
  assumes "unat (g_MonitorIdCounter s) + 2 * length evs < 2 ^ 32"
  shows "sorted_wrt (<) (allocated_ids (fst (run evs s)))
     \<and> distinct (allocated_ids (fst (run evs s)))
     \<and> (\<forall>x \<in> set (allocated_ids (fst (run evs s))). g_MonitorIdCounter s < x)
     \<and> allocated_ids (map Call (snd (snd (fst (CreateMonitor host a s)))))
         = [g_MonitorIdCounter (snd (CreateMonitor host a s))]"
proof -
  note inv = run_invariant [OF assms]
  from inv have sorted: "sorted_wrt (<) (map unat (allocated_ids (fst (run evs s))))"
    by blast
  then have "distinct (map unat (allocated_ids (fst (run evs s))))"
    by (rule strictly_sorted_distinct)
  then have distinct: "distinct (allocated_ids (fst (run evs s)))"
    by (simp add: distinct_map)
  from inv have above: "\<forall>x \<in> set (allocated_ids (fst (run evs s))). g_MonitorIdCounter s < x"
    by (simp add: word_less_nat_alt)
  from sorted distinct above show ?thesis
    by (simp add: sorted_wrt_unat CreateMonitor_ids CreateMonitor_state)
qed

theorem monitor_ids_increase_witness:
  "unat (g_MonitorIdCounter (initial_state 0))
       + 2 * length [AdapterInitFinished (host_accepts 1) 0 STATUS_SUCCESS,
                     create_request (host_accepts 2),
                     destroy_request,
                     create_request host_refuses,
                     create_request (host_accepts 3)] < 2 ^ 32
   \<and> allocated_ids (fst (run [AdapterInitFinished (host_accepts 1) 0 STATUS_SUCCESS,
                     create_request (host_accepts 2),
                     destroy_request,
                     create_request host_refuses,
                     create_request (host_accepts 3)] (initial_state 0))) = [1, 2, 4, 5]
   \<and> sorted_wrt (<) (allocated_ids (fst (run [AdapterInitFinished (host_accepts 1) 0 STATUS_SUCCESS,
                     create_request (host_accepts 2),
                     destroy_request,
                     create_request host_refuses,
                     create_request (host_accepts 3)] (initial_state 0))))"
proof -
  let ?evs = "[AdapterInitFinished (host_accepts 1) 0 STATUS_SUCCESS,
                     create_request (host_accepts 2),
                     destroy_request,
                     create_request host_refuses,
                     create_request (host_accepts 3)]"
  have h: "unat (g_MonitorIdCounter (initial_state 0)) + 2 * length ?evs < 2 ^ 32"
    by (simp add: initial_state_def)
  have ids: "allocated_ids (fst (run ?evs (initial_state 0))) = [1, 2, 4, 5]"
    by (simp add: run_Cons allocated_ids_append step_init_accepted step_accepted step_refused
        step_destroy initial_state_def del: run.simps(2) step.simps)
  from monitor_ids_increase [OF h] h ids show ?thesis
    by simp
qed


text \<open>
  Claim C6 says that ids are strictly increasing and never allocated again. The counter is
  a 32-bit \<open>LONG\<close> and every call of \<open>CreateMonitor\<close> increments it, also a call the host
  then refuses. After the default monitor has taken id 1, \<open>2 ^ 32 - 1\<close> refused requests
  bring the counter round to 0, and the next monitor gets id 1 again: two monitor objects
  with the same id.
\<close>

theorem monitor_id_allocated_twice:
  "\<not> distinct (allocated_ids (fst (run
         (AdapterInitFinished (host_accepts 2) 0 STATUS_SUCCESS
            # replicate 4294967295 (create_request host_refuses)
            @ [create_request (host_accepts 3)])
         (initial_state 0))))
   \<and> \<not> sorted_wrt (<) (allocated_ids (fst (run
         (AdapterInitFinished (host_accepts 2) 0 STATUS_SUCCESS
            # replicate 4294967295 (create_request host_refuses)
            @ [create_request (host_accepts 3)])
         (initial_state 0))))
   \<and> map_option mc_MonitorId (monitor_contexts (snd (run
         (AdapterInitFinished (host_accepts 2) 0 STATUS_SUCCESS
            # replicate 4294967295 (create_request host_refuses)
            @ [create_request (host_accepts 3)])
         (initial_state 0))) 2) = Some 1
   \<and> map_option mc_MonitorId (monitor_contexts (snd (run
         (AdapterInitFinished (host_accepts 2) 0 STATUS_SUCCESS
            # replicate 4294967295 (create_request host_refuses)
            @ [create_request (host_accepts 3)])
         (initial_state 0))) 3) = Some 1"
proof -
  let ?first = "AdapterInitFinished (host_accepts 2) 0 STATUS_SUCCESS"
  let ?mid = "replicate 4294967295 (create_request host_refuses)"
  let ?last = "create_request (host_accepts 3)"
  let ?s1 = "snd (step ?first (initial_state 0))"
  let ?s2 = "snd (run ?mid ?s1)"
  let ?X = "allocated_ids (fst (run ?mid ?s1))"
  have c1: "g_MonitorIdCounter ?s1 = 1"
    by (simp add: step_init_accepted initial_state_def del: step.simps)
  have c2: "g_MonitorIdCounter ?s2 = 0"
    by (simp add: run_refused c1 del: step.simps)
  have a1: "allocated_ids (fst (step ?first (initial_state 0))) = [1]"
    by (simp add: step_init_accepted(2) initial_state_def del: step.simps)
  have a3: "allocated_ids (fst (step ?last ?s2)) = [1]"
    by (simp add: step_accepted(2) c2 del: step.simps)
  have ids: "allocated_ids (fst (run (?first # ?mid @ [?last]) (initial_state 0))) = 1 # ?X @ [1]"
    by (simp only: run_Cons run_append run.simps(1) allocated_ids_append a1 a3 fst_conv
        append_Nil2 append.simps)
  have m1: "map_option mc_MonitorId (monitor_contexts ?s2 2) = Some 1"
    by (simp add: run_refused step_init_accepted initial_state_def del: step.simps)
  have fin: "snd (run (?first # ?mid @ [?last]) (initial_state 0)) = snd (step ?last ?s2)"
    by (simp only: run_Cons run_append run.simps(1) snd_conv)
  have "\<not> distinct (1 # ?X @ [1 :: UINT])"
    by simp
  moreover have "\<not> sorted_wrt (<) (1 # ?X @ [1 :: UINT])"
    by (simp add: sorted_wrt_append)
  moreover have "map_option mc_MonitorId (monitor_contexts (snd (step ?last ?s2)) 2) = Some 1"
    using m1 by (simp add: step_accepted del: step.simps)
  moreover have "map_option mc_MonitorId (monitor_contexts (snd (step ?last ?s2)) 3) = Some 1"
    by (simp add: step_accepted c2 del: step.simps)
  ultimately show ?thesis
    by (simp only: ids fin simp_thms)
qed


section \<open>The id a create-monitor request returns\<close>

lemma creation_status_request:
  "succeeded (creation_status (IoDeviceControl host code) s) =
     (code = IOCTL_EXPANDSCREEN_CREATE_MONITOR
      \<and> NT_SUCCESS (RetrieveInputBuffer_status host)
      \<and> NT_SUCCESS (RetrieveOutputBuffer_status host)
      \<and> NT_SUCCESS (fst (fst (CreateMonitor (monitor_answers host) (dc_Adapter s) s))))"
  by (auto simp add: succeeded_def)

lemma successful_request:
  assumes "succeeded (creation_status (IoDeviceControl host code) s)"
  shows "g_MonitorIdCounter (snd (ExpandScreenEvtIoDeviceControl host code s))
       = g_MonitorIdCounter s + 2"
    and "allocated_ids (map Call (snd (fst (ExpandScreenEvtIoDeviceControl host code s))))
       = [g_MonitorIdCounter s + 1]"
    and "map_option mc_MonitorId
          (monitor_contexts (snd (ExpandScreenEvtIoDeviceControl host code s))
             (MonitorObject (monitor_answers host)))
       = Some (g_MonitorIdCounter s + 1)"
    and "create_output (fst (fst (ExpandScreenEvtIoDeviceControl host code s)))
       = Some \<lparr>cmo_MonitorId = g_MonitorIdCounter s + 1 + 1, cmo_Status = STATUS_SUCCESS\<rparr>"
proof -
  from assms have c: "code = IOCTL_EXPANDSCREEN_CREATE_MONITOR"
    and ok: "NT_SUCCESS (RetrieveInputBuffer_status host)"
      "NT_SUCCESS (RetrieveOutputBuffer_status host)"
      "NT_SUCCESS (fst (fst (CreateMonitor (monitor_answers host) (dc_Adapter s) s)))"
    by (simp_all only: creation_status_request)
  note r = ioctl_create_succeeds [OF ok]
  show "g_MonitorIdCounter (snd (ExpandScreenEvtIoDeviceControl host code s))
       = g_MonitorIdCounter s + 2"
    by (simp add: c r)
  show "allocated_ids (map Call (snd (fst (ExpandScreenEvtIoDeviceControl host code s))))
       = [g_MonitorIdCounter s + 1]"
    by (simp add: c r CreateMonitor_ids)
  show "map_option mc_MonitorId
          (monitor_contexts (snd (ExpandScreenEvtIoDeviceControl host code s))
             (MonitorObject (monitor_answers host)))
       = Some (g_MonitorIdCounter s + 1)"
    using CreateMonitor_context [OF ok(3)] by (simp add: c r)
  show "create_output (fst (fst (ExpandScreenEvtIoDeviceControl host code s)))
       = Some \<lparr>cmo_MonitorId = g_MonitorIdCounter s + 1 + 1, cmo_Status = STATUS_SUCCESS\<rparr>"
    by (simp add: c r)
qed

lemma returned_ids_apart:
  assumes "unat (g_MonitorIdCounter s) + 2 * length evs < 2 ^ 32"
  shows "set (returned_ids (fst (run evs s))) \<inter> set (allocated_ids (fst (run evs s))) = {}"
    and "\<forall>x \<in> set (returned_ids (fst (run evs s))). g_MonitorIdCounter s < x"
proof -
  note inv = run_invariant [OF assms]
  from inv have "unat ` set (returned_ids (fst (run evs s)))
      \<inter> unat ` set (allocated_ids (fst (run evs s))) = {}"
    by simp
  then show "set (returned_ids (fst (run evs s))) \<inter> set (allocated_ids (fst (run evs s))) = {}"
    by blast
  from inv show "\<forall>x \<in> set (returned_ids (fst (run evs s))). g_MonitorIdCounter s < x"
    by (simp add: word_less_nat_alt)
qed

text \<open>
  Claim C10, as amended. A create-monitor request that succeeds increments the shared
  counter twice: \<open>CreateMonitor\<close> takes the first value as the connector index and the id
  of the new monitor, the handler takes the second as the id it returns, so the returned
  id is the connector index plus one and differs from it. As long as the 32-bit counter
  does not wrap during a run, no id returned in the run is the id of a monitor allocated
  in the run or before it.
\<close>

theorem returned_id_follows_connector_index:
  "(succeeded (creation_status (IoDeviceControl host code) s) \<longrightarrow>
      g_MonitorIdCounter (snd (ExpandScreenEvtIoDeviceControl host code s))
        = g_MonitorIdCounter s + 2
      \<and> allocated_ids (map Call (snd (fst (ExpandScreenEvtIoDeviceControl host code s))))
        = [g_MonitorIdCounter s + 1]
      \<and> map_option mc_MonitorId
           (monitor_contexts (snd (ExpandScreenEvtIoDeviceControl host code s))
              (MonitorObject (monitor_answers host)))
        = Some (g_MonitorIdCounter s + 1)
      \<and> create_output (fst (fst (ExpandScreenEvtIoDeviceControl host code s)))
        = Some \<lparr>cmo_MonitorId = g_MonitorIdCounter s + 1 + 1, cmo_Status = STATUS_SUCCESS\<rparr>
      \<and> g_MonitorIdCounter s + 1 + 1 \<noteq> g_MonitorIdCounter s + 1)
   \<and> (unat (g_MonitorIdCounter s) + 2 * length evs < 2 ^ 32 \<longrightarrow>
        set (returned_ids (fst (run evs s))) \<inter> set (allocated_ids (fst (run evs s))) = {}
        \<and> (\<forall>x \<in> set (returned_ids (fst (run evs s))). g_MonitorIdCounter s < x))"
  by (intro conjI impI successful_request returned_ids_apart) simp_all


lemma returned_ids_step:
  "returned_ids (fst (step (create_request (host_accepts h)) s)) = [g_MonitorIdCounter s + 2]"
  "returned_ids (fst (step (create_request host_refuses) s)) = []"
  "returned_ids (fst (step (AdapterInitFinished (host_accepts h) a STATUS_SUCCESS) s)) = []"
  "returned_ids (fst (step destroy_request s)) = []"
  by (simp_all add: returned_ids_def step_accepted step_refused step_init_accepted step_destroy
      NT_SUCCESS_STATUS_SUCCESS not_NT_SUCCESS_STATUS_UNSUCCESSFUL del: step.simps)

lemma create_host_succeeds:
  "succeeded (creation_status (IoDeviceControl (create_host (host_accepts h))
      IOCTL_EXPANDSCREEN_CREATE_MONITOR) s)"
  by (simp add: creation_status_request create_host_def NT_SUCCESS_STATUS_SUCCESS
      CreateMonitor_accepts del: creation_status.simps)

theorem returned_id_follows_connector_index_witness:
  "succeeded (creation_status (IoDeviceControl (create_host (host_accepts 2))
      IOCTL_EXPANDSCREEN_CREATE_MONITOR) (initial_state 0))
   \<and> allocated_ids (map Call (snd (fst (ExpandScreenEvtIoDeviceControl
        (create_host (host_accepts 2)) IOCTL_EXPANDSCREEN_CREATE_MONITOR (initial_state 0)))))
      = [1]
   \<and> create_output (fst (fst (ExpandScreenEvtIoDeviceControl
        (create_host (host_accepts 2)) IOCTL_EXPANDSCREEN_CREATE_MONITOR (initial_state 0))))
      = Some \<lparr>cmo_MonitorId = 2, cmo_Status = STATUS_SUCCESS\<rparr>
   \<and> unat (g_MonitorIdCounter (initial_state 0))
        + 2 * length [AdapterInitFinished (host_accepts 2) 0 STATUS_SUCCESS,
                      create_request (host_accepts 3),
                      create_request host_refuses,
                      create_request (host_accepts 4)] < 2 ^ 32
   \<and> returned_ids (fst (run [AdapterInitFinished (host_accepts 2) 0 STATUS_SUCCESS,
                      create_request (host_accepts 3),
                      create_request host_refuses,
                      create_request (host_accepts 4)] (initial_state 0))) = [3, 6]
   \<and> set (returned_ids (fst (run [AdapterInitFinished (host_accepts 2) 0 STATUS_SUCCESS,
                      create_request (host_accepts 3),
                      create_request host_refuses,
                      create_request (host_accepts 4)] (initial_state 0))))
      \<inter> set (allocated_ids (fst (run [AdapterInitFinished (host_accepts 2) 0 STATUS_SUCCESS,
                      create_request (host_accepts 3),
                      create_request host_refuses,
                      create_request (host_accepts 4)] (initial_state 0)))) = {}"
proof -
  let ?evs = "[AdapterInitFinished (host_accepts 2) 0 STATUS_SUCCESS,
                      create_request (host_accepts 3),
                      create_request host_refuses,
                      create_request (host_accepts 4)]"
  have h1: "succeeded (creation_status (IoDeviceControl (create_host (host_accepts 2))
      IOCTL_EXPANDSCREEN_CREATE_MONITOR) (initial_state 0))"
    by (rule create_host_succeeds)
  have h2: "unat (g_MonitorIdCounter (initial_state 0)) + 2 * length ?evs < 2 ^ 32"
    by (simp add: initial_state_def)
  have c: "g_MonitorIdCounter (initial_state 0) = 0"
    by (simp add: initial_state_def)
  have r: "returned_ids (fst (run ?evs (initial_state 0))) = [3, 6]"
    by (simp add: run_Cons returned_ids_append returned_ids_step step_init_accepted
        step_accepted step_refused c del: run.simps(2) step.simps)
  from returned_id_follows_connector_index
    [of "create_host (host_accepts 2)" IOCTL_EXPANDSCREEN_CREATE_MONITOR "initial_state 0" ?evs]
    h1 h2 r c
  show ?thesis
    by (simp del: run.simps(2) step.simps creation_status.simps)
qed

text \<open>
  Claim C10 says that the returned id is never the id of any monitor. The counter wraps:
  after the default monitor has taken id 1, \<open>2 ^ 32 - 2\<close> refused requests leave the
  counter at \<open>2 ^ 32 - 1\<close>; the next request succeeds, its monitor gets connector index 0,
  and the id returned to the caller is 1, the id of the default monitor.
\<close>

theorem returned_id_is_a_monitor_id:
  "1 \<in> set (returned_ids (fst (run
         (AdapterInitFinished (host_accepts 2) 0 STATUS_SUCCESS
            # replicate 4294967294 (create_request host_refuses)
            @ [create_request (host_accepts 3)])
         (initial_state 0))))
   \<and> 1 \<in> set (allocated_ids (fst (run
         (AdapterInitFinished (host_accepts 2) 0 STATUS_SUCCESS
            # replicate 4294967294 (create_request host_refuses)
            @ [create_request (host_accepts 3)])
         (initial_state 0))))
   \<and> map_option mc_MonitorId (monitor_contexts (snd (run
         (AdapterInitFinished (host_accepts 2) 0 STATUS_SUCCESS
            # replicate 4294967294 (create_request host_refuses)
            @ [create_request (host_accepts 3)])
         (initial_state 0))) 2) = Some 1"
proof -
  let ?first = "AdapterInitFinished (host_accepts 2) 0 STATUS_SUCCESS"
  let ?mid = "replicate 4294967294 (create_request host_refuses)"
  let ?last = "create_request (host_accepts 3)"
  let ?s1 = "snd (step ?first (initial_state 0))"
  let ?s2 = "snd (run ?mid ?s1)"
  have c1: "g_MonitorIdCounter ?s1 = 1"
    by (simp add: step_init_accepted initial_state_def del: step.simps)
  have c2: "g_MonitorIdCounter ?s2 = 4294967295"
    by (simp add: run_refused c1 del: step.simps)
  have a1: "allocated_ids (fst (step ?first (initial_state 0))) = [1]"
    by (simp add: step_init_accepted(2) initial_state_def del: step.simps)
  have r3: "returned_ids (fst (step ?last ?s2)) = [1]"
    by (simp add: returned_ids_step c2 del: step.simps)
  have ids: "allocated_ids (fst (run (?first # ?mid @ [?last]) (initial_state 0)))
      = 1 # allocated_ids (fst (run ?mid ?s1)) @ allocated_ids (fst (step ?last ?s2))"
    by (simp only: run_Cons run_append run.simps(1) allocated_ids_append a1 fst_conv
        append_Nil2 append.simps)
  have rets: "returned_ids (fst (run (?first # ?mid @ [?last]) (initial_state 0)))
      = returned_ids (fst (step ?first (initial_state 0)))
          @ returned_ids (fst (run ?mid ?s1)) @ [1]"
    by (simp only: run_Cons run_append run.simps(1) returned_ids_append r3 fst_conv
        append_Nil2 append.simps)
  have m1: "map_option mc_MonitorId (monitor_contexts ?s2 2) = Some 1"
    by (simp add: run_refused step_init_accepted initial_state_def del: step.simps)
  have fin: "snd (run (?first # ?mid @ [?last]) (initial_state 0)) = snd (step ?last ?s2)"
    by (simp only: run_Cons run_append run.simps(1) snd_conv)
  have "map_option mc_MonitorId (monitor_contexts (snd (step ?last ?s2)) 2) = Some 1"
    using m1 by (simp add: step_accepted del: step.simps)
  then show ?thesis
    unfolding ids rets fin by simp
qed


section \<open>The output record of a create-monitor request\<close>

lemma create_output_cases:
  assumes "create_output (fst (fst (ExpandScreenEvtIoDeviceControl host code s))) = Some out"
  shows "(NT_SUCCESS (fst (fst (CreateMonitor (monitor_answers host) (dc_Adapter s) s)))
          \<and> out = \<lparr>cmo_MonitorId = g_MonitorIdCounter s + 2, cmo_Status = STATUS_SUCCESS\<rparr>)
       \<or> (\<not> NT_SUCCESS (fst (fst (CreateMonitor (monitor_answers host) (dc_Adapter s) s)))
          \<and> out = \<lparr>cmo_MonitorId = 0,
                    cmo_Status = fst (fst (CreateMonitor (monitor_answers host) (dc_Adapter s) s))\<rparr>)"
proof -
  let ?cm = "CreateMonitor (monitor_answers host) (dc_Adapter s) s"
  from assms ioctl_without_creation(3) [of code host s]
  have c: "code = IOCTL_EXPANDSCREEN_CREATE_MONITOR"
    and ok: "NT_SUCCESS (RetrieveInputBuffer_status host)"
      "NT_SUCCESS (RetrieveOutputBuffer_status host)"
    by auto
  show ?thesis
  proof (cases "NT_SUCCESS (fst (fst ?cm))")
    case True
    from assms show ?thesis
      unfolding c ioctl_create_succeeds [OF ok True] using True by auto
  next
    case False
    from assms show ?thesis
      unfolding c ioctl_create_fails [OF ok False] using False by auto
  qed
qed

lemma plus_2_zero: "(c :: 32 word) + 2 = 0 \<longleftrightarrow> c = 0xFFFFFFFE"
proof
  assume "c + 2 = 0"
  then have "c = - 2"
    by (simp add: eq_neg_iff_add_eq_0)
  then show "c = 0xFFFFFFFE"
    by simp
next
  assume "c = 0xFFFFFFFE"
  then show "c + 2 = 0"
    by simp
qed

text \<open>
  Claim C8, as amended. When a request writes an output record, the record is either the
  status \<open>STATUS_SUCCESS\<close> with the id the counter reaches after two increments, or the id
  zero with the failing status of \<open>CreateMonitor\<close>. A non-zero id is never paired with a
  failing status. The id paired with success is non-zero unless the counter wraps to zero,
  that is unless it held \<open>2 ^ 32 - 2\<close> before the request.
\<close>

theorem create_output_pairs:
  assumes "create_output (fst (fst (ExpandScreenEvtIoDeviceControl host code s))) = Some out"
  shows "(if NT_SUCCESS (cmo_Status out)
          then cmo_Status out = STATUS_SUCCESS \<and> cmo_MonitorId out = g_MonitorIdCounter s + 2
          else cmo_MonitorId out = 0
             \<and> cmo_Status out = fst (fst (CreateMonitor (monitor_answers host) (dc_Adapter s) s)))
     \<and> (g_MonitorIdCounter s \<noteq> 0xFFFFFFFE \<longrightarrow>
          (cmo_MonitorId out \<noteq> 0) = NT_SUCCESS (cmo_Status out))
     \<and> (cmo_MonitorId out \<noteq> 0 \<longrightarrow> NT_SUCCESS (cmo_Status out))"
  using create_output_cases [OF assms]
  by (auto simp add: NT_SUCCESS_STATUS_SUCCESS plus_2_zero)

theorem create_output_pairs_witness:
  "create_output (fst (fst (ExpandScreenEvtIoDeviceControl (create_host (host_accepts 2))
       IOCTL_EXPANDSCREEN_CREATE_MONITOR (initial_state 0))))
     = Some \<lparr>cmo_MonitorId = 2, cmo_Status = STATUS_SUCCESS\<rparr>
   \<and> create_output (fst (fst (ExpandScreenEvtIoDeviceControl (create_host host_refuses)
       IOCTL_EXPANDSCREEN_CREATE_MONITOR (initial_state 0))))
     = Some \<lparr>cmo_MonitorId = 0, cmo_Status = STATUS_UNSUCCESSFUL\<rparr>
   \<and> g_MonitorIdCounter (initial_state 0) \<noteq> 0xFFFFFFFE
   \<and> ((cmo_MonitorId \<lparr>cmo_MonitorId = 2, cmo_Status = STATUS_SUCCESS\<rparr> \<noteq> 0)
        = NT_SUCCESS (cmo_Status \<lparr>cmo_MonitorId = 2, cmo_Status = STATUS_SUCCESS\<rparr>))
   \<and> ((cmo_MonitorId \<lparr>cmo_MonitorId = 0, cmo_Status = STATUS_UNSUCCESSFUL\<rparr> \<noteq> 0)
        = NT_SUCCESS (cmo_Status \<lparr>cmo_MonitorId = 0, cmo_Status = STATUS_UNSUCCESSFUL\<rparr>))"
proof -
  have c: "g_MonitorIdCounter (initial_state 0) = 0" "dc_Adapter (initial_state 0) = 0"
    by (simp_all add: initial_state_def)
  have a: "create_output (fst (fst (ExpandScreenEvtIoDeviceControl (create_host (host_accepts 2))
       IOCTL_EXPANDSCREEN_CREATE_MONITOR (initial_state 0))))
     = Some \<lparr>cmo_MonitorId = 2, cmo_Status = STATUS_SUCCESS\<rparr>"
    by (simp add: ioctl_create_succeeds create_host_def NT_SUCCESS_STATUS_SUCCESS
        CreateMonitor_accepts c)
  have b: "create_output (fst (fst (ExpandScreenEvtIoDeviceControl (create_host host_refuses)
       IOCTL_EXPANDSCREEN_CREATE_MONITOR (initial_state 0))))
     = Some \<lparr>cmo_MonitorId = 0, cmo_Status = STATUS_UNSUCCESSFUL\<rparr>"
    by (simp add: ioctl_create_fails create_host_def NT_SUCCESS_STATUS_SUCCESS
        not_NT_SUCCESS_STATUS_UNSUCCESSFUL CreateMonitor_refuses c)
  from create_output_pairs [OF a] create_output_pairs [OF b] a b c show ?thesis
    by simp
qed

text \<open>
  Claim C8 says that a zero id is never paired with a success status. The returned id is
  the 32-bit counter after two increments: after \<open>2 ^ 32 - 2\<close> refused requests the counter
  holds \<open>2 ^ 32 - 2\<close>, and the next request, which succeeds, returns id 0 with
  \<open>STATUS_SUCCESS\<close>.
\<close>

theorem zero_id_with_success:
  "\<lparr>cmo_MonitorId = 0, cmo_Status = STATUS_SUCCESS\<rparr>
     \<in> set (output_records (fst (run
         (replicate 4294967294 (create_request host_refuses) @ [create_request (host_accepts 2)])
         (initial_state 0))))
   \<and> NT_SUCCESS STATUS_SUCCESS"
proof -
  let ?mid = "replicate 4294967294 (create_request host_refuses)"
  let ?last = "create_request (host_accepts 2)"
  let ?s2 = "snd (run ?mid (initial_state 0))"
  have c2: "g_MonitorIdCounter ?s2 = 4294967294"
    by (simp add: run_refused initial_state_def)
  have "output_records (fst (step ?last ?s2)) = [\<lparr>cmo_MonitorId = 0, cmo_Status = STATUS_SUCCESS\<rparr>]"
    by (simp add: step_accepted c2 del: step.simps)
  then have "output_records (fst (run (?mid @ [?last]) (initial_state 0)))
      = output_records (fst (run ?mid (initial_state 0)))
          @ [\<lparr>cmo_MonitorId = 0, cmo_Status = STATUS_SUCCESS\<rparr>]"
    by (simp only: run_Cons run_append run.simps(1) output_records_append fst_conv append_Nil2)
  then show ?thesis
    by (simp add: NT_SUCCESS_STATUS_SUCCESS)
qed


section \<open>The monitor count\<close>

lemma step_count:
  "dc_MonitorCount (snd (step e s))
     = (if succeeded (creation_status e s) then dc_MonitorCount s + 1 else dc_MonitorCount s)"
proof (cases e)
  case (AdapterInitFinished host a st)
  then show ?thesis
    by (simp add: ExpandScreenEvtAdapterInitFinished_def case_prod_beta Let_def succeeded_def
        CreateMonitor_state InterlockedIncrement_def)
next
  case e: (IoDeviceControl host code)
  show ?thesis
  proof (cases "succeeded (creation_status (IoDeviceControl host code) s)")
    case True
    then have c: "code = IOCTL_EXPANDSCREEN_CREATE_MONITOR"
      and ok: "NT_SUCCESS (RetrieveInputBuffer_status host)"
        "NT_SUCCESS (RetrieveOutputBuffer_status host)"
        "NT_SUCCESS (fst (fst (CreateMonitor (monitor_answers host) (dc_Adapter s) s)))"
      by (simp_all only: creation_status_request)
    from True show ?thesis
      unfolding e step_request c ioctl_create_succeeds [OF ok] by simp
  next
    case False
    then consider
      (none) "code \<noteq> IOCTL_EXPANDSCREEN_CREATE_MONITOR
         \<or> \<not> NT_SUCCESS (RetrieveInputBuffer_status host)
         \<or> \<not> NT_SUCCESS (RetrieveOutputBuffer_status host)"
      | (fails) "code = IOCTL_EXPANDSCREEN_CREATE_MONITOR"
          "NT_SUCCESS (RetrieveInputBuffer_status host)"
          "NT_SUCCESS (RetrieveOutputBuffer_status host)"
          "\<not> NT_SUCCESS (fst (fst (CreateMonitor (monitor_answers host) (dc_Adapter s) s)))"
      unfolding creation_status_request by blast
    then show ?thesis
    proof cases
      case none
      from False show ?thesis
        unfolding e step_request ioctl_without_creation(1) [OF none] by simp
    next
      case fails
      from False show ?thesis
        unfolding e step_request fails(1) ioctl_create_fails [OF fails(2-4)]
        by (simp add: CreateMonitor_state)
    qed
  qed
qed (simp_all add: succeeded_def case_prod_beta Let_def split: option.splits)

lemma run_count:
  "dc_MonitorCount (snd (run evs s)) = dc_MonitorCount s + of_nat (successful_creations evs s)"
proof (induction evs arbitrary: s)
  case Nil
  show ?case by simp
next
  case (Cons e es)
  show ?case
    by (simp add: run_Cons Cons step_count del: run.simps(2) step.simps creation_status.simps)
qed

lemma not_NT_SUCCESS_STATUS_NOT_IMPLEMENTED: "\<not> NT_SUCCESS STATUS_NOT_IMPLEMENTED"
  by (simp add: NT_SUCCESS_def STATUS_NOT_IMPLEMENTED_def)

lemma destruction_never_succeeds: "\<not> succeeded (destruction_status e s)"
proof (cases e)
  case (IoDeviceControl host code)
  then show ?thesis
    by (simp add: succeeded_def ExpandScreenEvtIoDeviceControl_def
        ioctl_codes_distinct [symmetric] not_NT_SUCCESS_STATUS_NOT_IMPLEMENTED)
qed (simp_all add: succeeded_def)

lemma no_successful_destruction: "successful_destructions evs s = 0"
  by (induction evs arbitrary: s)
    (simp_all add: destruction_never_succeeds del: step.simps destruction_status.simps)

lemma sint_small: "n < 2 ^ 31 \<Longrightarrow> sint (of_nat n :: 32 word) = int n"
proof -
  assume "n < 2 ^ 31"
  then have "int n < 2 ^ 31" "- (2 ^ 31) \<le> int n"
    by simp_all
  then show ?thesis
    by (simp add: signed_of_nat signed_take_bit_int_eq_self)
qed

text \<open>
  Claim C7, as amended. Every event changes \<open>MonitorCount\<close> by exactly one increment when
  the \<open>CreateMonitor\<close> call it makes succeeds, and leaves it unchanged otherwise: a failed
  creation, a destroy request, and every other callback leave it alone. After a run with
  \<open>k\<close> successful creations the count is its initial value plus \<open>k\<close>, modulo \<open>2 ^ 32\<close>. No
  destruction ever succeeds, so \<open>j = 0\<close>. Starting from zero, while \<open>k < 2 ^ 31\<close> the count
  read as a \<open>LONG\<close> is \<open>k - j\<close> and is not negative.
\<close>

theorem monitor_count:
  "dc_MonitorCount (snd (step e s))
      = (if succeeded (creation_status e s) then dc_MonitorCount s + 1 else dc_MonitorCount s)
   \<and> dc_MonitorCount (snd (run evs s))
      = dc_MonitorCount s + of_nat (successful_creations evs s)
   \<and> successful_destructions evs s = 0
   \<and> (dc_MonitorCount s = 0 \<and> successful_creations evs s < 2 ^ 31 \<longrightarrow>
        sint (dc_MonitorCount (snd (run evs s)))
          = int (successful_creations evs s) - int (successful_destructions evs s)
        \<and> 0 \<le> sint (dc_MonitorCount (snd (run evs s))))"
  by (simp add: step_count run_count no_successful_destruction sint_small
      del: step.simps creation_status.simps)


lemma creation_succeeds:
  "succeeded (creation_status (create_request (host_accepts h)) s)"
  "\<not> succeeded (creation_status (create_request host_refuses) s)"
  "succeeded (creation_status (AdapterInitFinished (host_accepts h) a STATUS_SUCCESS) s)"
  "\<not> succeeded (creation_status destroy_request s)"
  by (simp_all add: create_request_def destroy_request_def creation_status_request
      create_host_def succeeded_def NT_SUCCESS_STATUS_SUCCESS CreateMonitor_accepts
      CreateMonitor_refuses not_NT_SUCCESS_STATUS_UNSUCCESSFUL ioctl_codes_distinct [symmetric])

lemma all_accepted:
  "successful_creations (map (\<lambda>monitor. create_request (host_accepts monitor)) hs) s = length hs"
  by (induction hs arbitrary: s)
    (simp_all add: creation_succeeds del: step.simps creation_status.simps)

theorem monitor_count_witness:
  "dc_MonitorCount (initial_state 0) = 0
   \<and> successful_creations
        [AdapterInitFinished (host_accepts 2) 0 STATUS_SUCCESS, create_request (host_accepts 3),
         create_request host_refuses, destroy_request, create_request (host_accepts 4)]
        (initial_state 0) = 3
   \<and> (3 :: nat) < 2 ^ 31
   \<and> successful_destructions
        [AdapterInitFinished (host_accepts 2) 0 STATUS_SUCCESS, create_request (host_accepts 3),
         create_request host_refuses, destroy_request, create_request (host_accepts 4)]
        (initial_state 0) = 0
   \<and> sint (dc_MonitorCount (snd (run
        [AdapterInitFinished (host_accepts 2) 0 STATUS_SUCCESS, create_request (host_accepts 3),
         create_request host_refuses, destroy_request, create_request (host_accepts 4)]
        (initial_state 0)))) = 3
   \<and> dc_MonitorCount (snd (step (create_request host_refuses) (initial_state 0))) = 0"
proof -
  let ?evs = "[AdapterInitFinished (host_accepts 2) 0 STATUS_SUCCESS,
         create_request (host_accepts 3),
         create_request host_refuses, destroy_request, create_request (host_accepts 4)]"
  have z: "dc_MonitorCount (initial_state 0) = 0"
    by (simp add: initial_state_def)
  have k: "successful_creations ?evs (initial_state 0) = 3"
    by (simp add: creation_succeeds del: step.simps creation_status.simps)
  from monitor_count [of "create_request host_refuses" "initial_state 0" ?evs] z k
  show ?thesis
    by (simp add: creation_succeeds del: step.simps creation_status.simps run.simps(2)
        successful_creations.simps successful_destructions.simps)
qed

text \<open>
  Claim C7 says that the count is \<open>k - j\<close> and never negative. It is a 32-bit \<open>LONG\<close>
  incremented with wrap-around and nothing bounds the number of monitors at creation:
  after \<open>2 ^ 31\<close> accepted requests it is \<open>- 2 ^ 31\<close>.
\<close>

theorem monitor_count_negative:
  "successful_creations (accepted_requests 2147483648) (initial_state 0) = 2147483648
   \<and> successful_destructions (accepted_requests 2147483648) (initial_state 0) = 0
   \<and> sint (dc_MonitorCount (snd (run (accepted_requests 2147483648) (initial_state 0))))
      = - 2147483648"
proof -
  have k: "successful_creations (accepted_requests 2147483648) (initial_state 0) = 2147483648"
    unfolding accepted_requests_def all_accepted by (simp only: length_upt diff_zero)
  have "dc_MonitorCount (snd (run (accepted_requests 2147483648) (initial_state 0)))
      = of_nat 2147483648"
    by (simp only: run_count k) (simp add: initial_state_def)
  then have "sint (dc_MonitorCount (snd (run (accepted_requests 2147483648) (initial_state 0))))
      = - 2147483648"
    by simp
  with k show ?thesis
    by (simp only: no_successful_destruction simp_thms)
qed


end
